theory Spec2Isabelle
  imports Main
begin

section \<open>Data model of the org membership workflow\<close>

text \<open>
  The controller \<^verbatim>\<open>OrgsServerController.ts\<close> works on three kinds of documents: users,
  orgs and proposals. A reference array such as \<^verbatim>\<open>org.admins\<close> is only ever read through
  the \<^verbatim>\<open>.id\<close> of its elements (\<^verbatim>\<open>org.admins.map(admin => admin.id)\<close>,
  \<^verbatim>\<open>filter(member => member.id !== user.id)\<close>), so a reference array is the list of the
  identities of its elements, in the order of the array. Identities are the strings that
  \<^verbatim>\<open>.id\<close> yields.
\<close>

type_synonym ident = string

record user =
  uid :: ident
  roles :: "string list"
  orgsAdmin :: "ident list"
  orgsMember :: "ident list"
  orgsPending :: "ident list"

record org =
  oid :: ident
  orgImageURL :: string
  name :: string
  website :: string
  capabilities :: "ident list"
  capabilitySkills :: "ident list"
  owner :: "ident option"
  createdBy :: "ident option"
  updatedBy :: "ident option"
  admins :: "ident list"
  members :: "ident list"
  joinRequests :: "ident list"
  invitedUsers :: "ident list"
  invitedNonUsers :: "ident list"

text \<open>
  A proposal as \<^verbatim>\<open>removeUserFromProposals\<close> sees it: the opportunity is populated with
  \<^verbatim>\<open>opportunityTypeCd\<close> and \<^verbatim>\<open>deadline\<close>; the deadline is the value of
  \<^verbatim>\<open>new Date(deadline).getTime()\<close>, milliseconds as an integer.
\<close>

record opportunity =
  opportunityTypeCd :: string
  deadline :: int

record phase =
  team :: "ident list"

record phases =
  inception :: phase
  proto :: phase
  implementation :: phase

record proposal =
  pid :: ident
  p_org :: ident
  opportunity :: opportunity
  phases :: phases
  status :: string

section \<open>Collaborators: persistence and notification\<close>

text \<open>
  Every call to a collaborator that returns a promise is an effect. The environment
  decides, from the calls made so far and the call at hand, whether the promise is
  rejected. The store keeps the persisted documents and the calls in the order in which
  they were issued, each with its outcome (\<open>True\<close>: resolved).
\<close>

datatype effect =
    SaveUser user
  | SaveOrg org
  | SaveProposal proposal
  | FindProposals ident
  | FindOrgById ident
  | ExecPopulate ident
  | SendMessages string "ident list" org "user option"

type_synonym calls = "(effect \<times> bool) list"

type_synonym env = "calls \<Rightarrow> effect \<Rightarrow> bool"

record db =
  orgs :: "ident \<rightharpoonup> org"
  users :: "ident \<rightharpoonup> user"
  proposals :: "proposal list"
  issued :: calls

datatype failure = TypeError | Rejection effect

definition commit :: "effect \<Rightarrow> db \<Rightarrow> db" where
  "commit e s =
     (case e of
        SaveUser u \<Rightarrow> s\<lparr>users := (users s)(uid u \<mapsto> u)\<rparr>
      | SaveOrg g \<Rightarrow> s\<lparr>orgs := (orgs s)(oid g \<mapsto> g)\<rparr>
      | SaveProposal p \<Rightarrow>
          s\<lparr>proposals := map (\<lambda>q. if pid q = pid p then p else q) (proposals s)\<rparr>
      | _ \<Rightarrow> s)"

definition perform :: "env \<Rightarrow> effect \<Rightarrow> db \<Rightarrow> bool \<times> db" where
  "perform rejects e s =
     (if rejects (issued s) e
      then (False, s\<lparr>issued := issued s @ [(e, False)]\<rparr>)
      else (True, (commit e s)\<lparr>issued := issued s @ [(e, True)]\<rparr>))"

section \<open>Array.prototype.indexOf\<close>

fun indexOf :: "'a list \<Rightarrow> 'a \<Rightarrow> int" where
  "indexOf [] x = - 1"
| "indexOf (y # ys) x =
     (if y = x then 0
      else (let r = indexOf ys x in if r = - 1 then - 1 else r + 1))"

section \<open>The authorization check\<close>

definition isUserAdmin :: "org option \<Rightarrow> user option \<Rightarrow> bool" where
  "isUserAdmin org_arg user_arg =
     (case user_arg of
        None \<Rightarrow> False
      | Some usr \<Rightarrow>
          (case org_arg of
             None \<Rightarrow> False
           | Some g \<Rightarrow>
               if indexOf (roles usr) ''admin'' \<ge> 0 then True
               else if indexOf (admins g) (uid usr) \<ge> 0 then True
               else False))"

section \<open>Requests and responses\<close>

text \<open>
  The request carries the documents that the routing middleware resolved: \<^verbatim>\<open>req.org\<close>,
  \<^verbatim>\<open>req.user\<close> (the signed-in caller) and \<^verbatim>\<open>req.profile\<close> (the user a membership
  action is about); each may be missing. A handler mutates these documents in memory
  and may save them, so it returns the request with the documents as it left them, next
  to the store. A handler either answers (\<open>Inr\<close>) or ends in an uncaught failure
  (\<open>Inl\<close>).
\<close>

record req =
  req_org :: "org option"
  req_user :: "user option"
  req_profile :: "user option"

datatype json = JString string | JRef "ident option" | JRefs "ident list"

datatype message = Literal string | ErrorMessage failure

datatype response =
    Json_null
  | Json_org org
  | Json_user_org user org
  | Json_object "(string \<times> json) list"
  | Status nat message

type_synonym 'a handled = "(failure + response) \<times> 'a \<times> db"

section \<open>Restricted and full read\<close>

text \<open>
  The top-level fields of an org document, as \<^verbatim>\<open>_.pick\<close> and \<^verbatim>\<open>res.json\<close> see them.
  \<^verbatim>\<open>_.pick(object, paths)\<close> of lodash copies, in the order of \<open>paths\<close>, every path
  that the object has; of \<^verbatim>\<open>null\<close> it is the empty object. \<^verbatim>\<open>res.json(req.org)\<close> sends
  the org, or \<^verbatim>\<open>null\<close> for a missing one.
\<close>

definition org_object :: "org \<Rightarrow> (string \<times> json) list" where
  "org_object g =
     [(''_id'', JString (oid g)),
      (''orgImageURL'', JString (orgImageURL g)),
      (''name'', JString (name g)),
      (''website'', JString (website g)),
      (''capabilities'', JRefs (capabilities g)),
      (''capabilitySkills'', JRefs (capabilitySkills g)),
      (''owner'', JRef (owner g)),
      (''createdBy'', JRef (createdBy g)),
      (''updatedBy'', JRef (updatedBy g)),
      (''admins'', JRefs (admins g)),
      (''members'', JRefs (members g)),
      (''joinRequests'', JRefs (joinRequests g)),
      (''invitedUsers'', JRefs (invitedUsers g)),
      (''invitedNonUsers'', JRefs (invitedNonUsers g))]"

definition pick :: "(string \<times> 'v) list option \<Rightarrow> string list \<Rightarrow> (string \<times> 'v) list" where
  "pick object paths =
     (case object of
        None \<Rightarrow> []
      | Some obj \<Rightarrow> List.map_filter (\<lambda>k. map_option (Pair k) (map_of obj k)) paths)"

definition read :: "req \<Rightarrow> response" where
  "read rq =
     (if req_user rq = None \<or> \<not> isUserAdmin (req_org rq) (req_user rq)
      then Json_object
             (pick (map_option org_object (req_org rq))
                [''_id'', ''orgImageURL'', ''name'', ''website'', ''capabilities''])
      else (case req_org rq of None \<Rightarrow> Json_null | Some g \<Rightarrow> Json_org g))"

section \<open>Looking an org up\<close>

text \<open>
  \<^verbatim>\<open>OrgModel.findById\<close> resolves to the stored document or to \<^verbatim>\<open>null\<close>.
  \<^verbatim>\<open>populateOrg\<close> calls \<^verbatim>\<open>org.populate(...)\<close> on its argument, which throws a
  TypeError on \<^verbatim>\<open>null\<close>; \<^verbatim>\<open>execPopulate\<close> resolves to the document itself. The value
  returned is a reference that could be \<^verbatim>\<open>null\<close>, hence an option.
\<close>

definition populateOrg :: "env \<Rightarrow> org option \<Rightarrow> db \<Rightarrow> (failure + org option) \<times> db" where
  "populateOrg rejects org_arg s =
     (case org_arg of
        None \<Rightarrow> (Inl TypeError, s)
      | Some g \<Rightarrow>
          (case perform rejects (ExecPopulate (oid g)) s of
             (False, s1) \<Rightarrow> (Inl (Rejection (ExecPopulate (oid g))), s1)
           | (True, s1) \<Rightarrow> (Inr (Some g), s1)))"

definition getOrgById :: "env \<Rightarrow> ident \<Rightarrow> db \<Rightarrow> (failure + org option) \<times> db" where
  "getOrgById rejects i s =
     (case perform rejects (FindOrgById i) s of
        (False, s1) \<Rightarrow> (Inl (Rejection (FindOrgById i)), s1)
      | (True, s1) \<Rightarrow> populateOrg rejects (orgs s1 i) s1)"

section \<open>Join request, acceptance and decline\<close>

text \<open>
  In \<^verbatim>\<open>joinRequest\<close> every awaited call sits inside the \<^verbatim>\<open>try\<close> block, so a rejection
  is answered with 500; \<^verbatim>\<open>updatedOrg.populate('admins', 'email').execPopulate()\<close> is
  not awaited: the call is issued and its outcome is ignored. In \<^verbatim>\<open>acceptRequest\<close> and
  \<^verbatim>\<open>declineRequest\<close> the documents are changed in memory first,
  \<^verbatim>\<open>sendMessages\<close> is awaited before the \<^verbatim>\<open>try\<close> block, so its rejection is not
  caught, and the two saves follow inside the block.
\<close>

definition joinRequest :: "env \<Rightarrow> req \<Rightarrow> db \<Rightarrow> req handled" where
  "joinRequest rejects rq s =
     (case req_user rq of
        None \<Rightarrow> (Inr (Status 403 (Literal ''You must be signed in to join a company'')), rq, s)
      | Some usr \<Rightarrow>
          (case req_org rq of
             None \<Rightarrow> (Inr (Status 422 (Literal ''Invalid join request'')), rq, s)
           | Some g \<Rightarrow>
               if indexOf (joinRequests g) (uid usr) \<noteq> - 1
                  \<or> indexOf (members g) (uid usr) \<noteq> - 1
                  \<or> indexOf (admins g) (uid usr) \<noteq> - 1
               then (Inr (Status 422 (Literal
                 ''You already have a pending request or are already a member of this company'')),
                 rq, s)
               else
                 (let g' = g\<lparr>joinRequests := joinRequests g @ [uid usr]\<rparr>;
                      usr' = usr\<lparr>orgsPending := orgsPending usr @ [oid g]\<rparr>;
                      rq' = rq\<lparr>req_org := Some g', req_user := Some usr'\<rparr>
                  in (case perform rejects (SaveOrg g') s of
                        (False, s1) \<Rightarrow>
                          (Inr (Status 500 (ErrorMessage (Rejection (SaveOrg g')))), rq', s1)
                      | (True, s1) \<Rightarrow>
                          (let s2 = snd (perform rejects (ExecPopulate (oid g')) s1)
                           in (case perform rejects (SaveUser usr') s2 of
                                 (False, s3) \<Rightarrow>
                                   (Inr (Status 500 (ErrorMessage (Rejection (SaveUser usr')))),
                                    rq', s3)
                               | (True, s3) \<Rightarrow>
                                   (let note = SendMessages ''company-join-request''
                                                 (admins g') g' (Some usr')
                                    in (case perform rejects note s3 of
                                          (False, s4) \<Rightarrow>
                                            (Inr (Status 500 (ErrorMessage (Rejection note))),
                                             rq', s4)
                                        | (True, s4) \<Rightarrow>
                                            (Inr (Json_user_org usr' g'), rq', s4)))))))))"

definition acceptRequest :: "env \<Rightarrow> req \<Rightarrow> db \<Rightarrow> req handled" where
  "acceptRequest rejects rq s =
     (if req_user rq = None \<or> \<not> isUserAdmin (req_org rq) (req_user rq)
      then (Inr (Status 403 (Literal
              ''You are not authorized to add members to this company'')), rq, s)
      else
        (case req_org rq of
           None \<Rightarrow> (Inr (Status 422 (Literal ''Invalid acceptance request'')), rq, s)
         | Some g \<Rightarrow>
             (case req_profile rq of
                None \<Rightarrow> (Inr (Status 422 (Literal ''Invalid acceptance request'')), rq, s)
              | Some requestingMember \<Rightarrow>
                  if indexOf (joinRequests g) (uid requestingMember) \<noteq> - 1
                     \<and> indexOf (members g) (uid requestingMember) = - 1
                  then
                    (let g' = g\<lparr>members := members g @ [uid requestingMember],
                                joinRequests :=
                                  filter (\<lambda>m. m \<noteq> uid requestingMember) (joinRequests g)\<rparr>;
                         m' = requestingMember
                                \<lparr>orgsPending :=
                                   filter (\<lambda>p. p \<noteq> oid g) (orgsPending requestingMember),
                                 orgsMember := orgsMember requestingMember @ [oid g]\<rparr>;
                         rq' = rq\<lparr>req_org := Some g', req_profile := Some m'\<rparr>;
                         note = SendMessages ''company-join-request-accepted'' [uid m'] g' None
                     in (case perform rejects note s of
                           (False, s1) \<Rightarrow> (Inl (Rejection note), rq', s1)
                         | (True, s1) \<Rightarrow>
                             (case perform rejects (SaveOrg g') s1 of
                                (False, s2) \<Rightarrow>
                                  (Inr (Status 500 (ErrorMessage (Rejection (SaveOrg g')))),
                                   rq', s2)
                              | (True, s2) \<Rightarrow>
                                  (case perform rejects (SaveUser m') s2 of
                                     (False, s3) \<Rightarrow>
                                       (Inr (Status 500 (ErrorMessage (Rejection (SaveUser m')))),
                                        rq', s3)
                                   | (True, s3) \<Rightarrow>
                                       (Inr (Json_user_org m' g'), rq', s3)))))
                  else (Inr (Json_org g), rq, s))))"

definition declineRequest :: "env \<Rightarrow> req \<Rightarrow> db \<Rightarrow> req handled" where
  "declineRequest rejects rq s =
     (if req_user rq = None \<or> \<not> isUserAdmin (req_org rq) (req_user rq)
      then (Inr (Status 403 (Literal
              ''You are not authorized to decline requests for this company'')), rq, s)
      else
        (case req_org rq of
           None \<Rightarrow> (Inr (Status 422 (Literal ''Invalid decline request'')), rq, s)
         | Some g \<Rightarrow>
             (case req_profile rq of
                None \<Rightarrow> (Inr (Status 422 (Literal ''Invalid decline request'')), rq, s)
              | Some requestingMember \<Rightarrow>
                  (let g' = g\<lparr>joinRequests :=
                                filter (\<lambda>m. m \<noteq> uid requestingMember) (joinRequests g)\<rparr>;
                       m' = requestingMember
                              \<lparr>orgsPending :=
                                 filter (\<lambda>p. p \<noteq> oid g) (orgsPending requestingMember)\<rparr>;
                       rq' = rq\<lparr>req_org := Some g', req_profile := Some m'\<rparr>;
                       note = SendMessages ''company-join-request-declined'' [uid m'] g' None
                   in (case perform rejects note s of
                         (False, s1) \<Rightarrow> (Inl (Rejection note), rq', s1)
                       | (True, s1) \<Rightarrow>
                           (case perform rejects (SaveOrg g') s1 of
                              (False, s2) \<Rightarrow>
                                (Inr (Status 500 (ErrorMessage (Rejection (SaveOrg g')))),
                                 rq', s2)
                            | (True, s2) \<Rightarrow>
                                (case perform rejects (SaveUser m') s2 of
                                   (False, s3) \<Rightarrow>
                                     (Inr (Status 500 (ErrorMessage (Rejection (SaveUser m')))),
                                      rq', s3)
                                 | (True, s3) \<Rightarrow>
                                     (Inr (Json_user_org m' g'), rq', s3))))))))"

section \<open>Member removal and the proposal cleanup\<close>

text \<open>
  The body of the \<^verbatim>\<open>forEach\<close> in \<^verbatim>\<open>removeUserFromProposals\<close>, on one found proposal.
  \<open>rightNow\<close> is \<^verbatim>\<open>new Date().getTime()\<close>, read once before the query. The proposal
  documents are the copies the query returned; \<^verbatim>\<open>proposal.save()\<close> is not awaited, so
  its outcome changes nothing in the control flow: the call is issued and the loop goes
  on.
\<close>

definition proposal_callback :: "env \<Rightarrow> int \<Rightarrow> user \<Rightarrow> proposal \<Rightarrow> db \<Rightarrow> db" where
  "proposal_callback rejects rightNow usr p s =
     (let isSprintWithUs = (opportunityTypeCd (opportunity p) = ''sprint-with-us'')
      in if isSprintWithUs \<and> deadline (opportunity p) - rightNow > 0
         then
           (let beforeProposalUserCount =
                  length (team (inception (phases p))) + length (team (proto (phases p)))
                  + length (team (implementation (phases p)));
                p1 = p\<lparr>phases := (phases p)\<lparr>inception := (inception (phases p))
                        \<lparr>team := filter (\<lambda>m. m \<noteq> uid usr) (team (inception (phases p)))\<rparr>\<rparr>\<rparr>;
                p2 = p1\<lparr>phases := (phases p1)\<lparr>proto := (proto (phases p1))
                        \<lparr>team := filter (\<lambda>m. m \<noteq> uid usr) (team (proto (phases p1)))\<rparr>\<rparr>\<rparr>;
                p3 = p2\<lparr>phases := (phases p2)\<lparr>implementation := (implementation (phases p2))
                        \<lparr>team := filter (\<lambda>m. m \<noteq> uid usr)
                                   (team (implementation (phases p2)))\<rparr>\<rparr>\<rparr>;
                afterProposalUserCount =
                  length (team (inception (phases p3))) + length (team (proto (phases p3)))
                  + length (team (implementation (phases p3)))
            in if beforeProposalUserCount \<noteq> afterProposalUserCount
               then snd (perform rejects (SaveProposal (p3\<lparr>status := ''Draft''\<rparr>)) s)
               else s)
         else s)"

fun forEach_proposal :: "env \<Rightarrow> int \<Rightarrow> user \<Rightarrow> proposal list \<Rightarrow> db \<Rightarrow> db" where
  "forEach_proposal rejects rightNow usr [] s = s"
| "forEach_proposal rejects rightNow usr (p # ps) s =
     forEach_proposal rejects rightNow usr ps (proposal_callback rejects rightNow usr p s)"

definition removeUserFromProposals ::
  "env \<Rightarrow> int \<Rightarrow> user \<Rightarrow> org \<Rightarrow> db \<Rightarrow> (failure + unit) \<times> db" where
  "removeUserFromProposals rejects rightNow usr g s =
     (case perform rejects (FindProposals (oid g)) s of
        (False, s1) \<Rightarrow> (Inl (Rejection (FindProposals (oid g))), s1)
      | (True, s1) \<Rightarrow>
          (Inr (),
           forEach_proposal rejects rightNow usr
             (filter (\<lambda>p. p_org p = oid g) (proposals s1)) s1))"

text \<open>
  \<^verbatim>\<open>removeMember\<close> returns, next to its result, the user and the org documents as it
  left them in memory.
\<close>

definition removeMember ::
  "env \<Rightarrow> int \<Rightarrow> user \<Rightarrow> org \<Rightarrow> db \<Rightarrow> (failure + org) \<times> user \<times> org \<times> db" where
  "removeMember rejects rightNow usr g s =
     (let usr1 = usr\<lparr>orgsAdmin := filter (\<lambda>a. a \<noteq> oid g) (orgsAdmin usr)\<rparr>;
          usr2 = usr1\<lparr>orgsMember := filter (\<lambda>m. m \<noteq> oid g) (orgsMember usr1)\<rparr>
      in (case perform rejects (SaveUser usr2) s of
            (False, s1) \<Rightarrow> (Inl (Rejection (SaveUser usr2)), usr2, g, s1)
          | (True, s1) \<Rightarrow>
              (case removeUserFromProposals rejects rightNow usr2 g s1 of
                 (Inl e, s2) \<Rightarrow> (Inl e, usr2, g, s2)
               | (Inr _, s2) \<Rightarrow>
                   (let g1 = g\<lparr>members := filter (\<lambda>m. m \<noteq> uid usr2) (members g)\<rparr>;
                        g2 = g1\<lparr>admins := filter (\<lambda>a. a \<noteq> uid usr2) (admins g1)\<rparr>
                    in (case perform rejects (SaveOrg g2) s2 of
                          (False, s3) \<Rightarrow> (Inl (Rejection (SaveOrg g2)), usr2, g2, s3)
                        | (True, s3) \<Rightarrow> (Inr g2, usr2, g2, s3))))))"

section \<open>A sample store\<close>

text \<open>
  One org with an admin (alice), a further member (bob), a pending requester (carol) and
  an unrelated user (dave); five proposals that differ in org, opportunity type,
  deadline and teams. The properties below are instantiated on these documents.
\<close>

definition never :: env where
  "never = (\<lambda>c e. False)"

definition org_save_rejected :: env where
  "org_save_rejected = (\<lambda>c e. case e of SaveOrg g \<Rightarrow> True | _ \<Rightarrow> False)"

definition user_save_rejected :: env where
  "user_save_rejected = (\<lambda>c e. case e of SaveUser u \<Rightarrow> True | _ \<Rightarrow> False)"

definition find_rejected :: env where
  "find_rejected = (\<lambda>c e. case e of FindProposals i \<Rightarrow> True | _ \<Rightarrow> False)"

definition proposal_save_rejected :: env where
  "proposal_save_rejected = (\<lambda>c e. case e of SaveProposal p \<Rightarrow> True | _ \<Rightarrow> False)"

definition lookup_rejected :: env where
  "lookup_rejected = (\<lambda>c e. case e of FindOrgById i \<Rightarrow> True | _ \<Rightarrow> False)"

definition acme :: org where
  "acme = \<lparr>oid = ''o1'', orgImageURL = ''logo.png'', name = ''Acme'', website = ''acme.ca'',
     capabilities = [''c1''], capabilitySkills = [], owner = Some ''u1'',
     createdBy = Some ''u1'', updatedBy = None, admins = [''u1''],
     members = [''u1'', ''u2''], joinRequests = [''u3''], invitedUsers = [],
     invitedNonUsers = []\<rparr>"

definition alice :: user where
  "alice = \<lparr>uid = ''u1'', roles = [''user''], orgsAdmin = [''o1''], orgsMember = [''o1''],
     orgsPending = []\<rparr>"

definition bob :: user where
  "bob = \<lparr>uid = ''u2'', roles = [''user''], orgsAdmin = [], orgsMember = [''o1'', ''o2''],
     orgsPending = []\<rparr>"

definition carol :: user where
  "carol = \<lparr>uid = ''u3'', roles = [''user''], orgsAdmin = [], orgsMember = [],
     orgsPending = [''o1'']\<rparr>"

definition dave :: user where
  "dave = \<lparr>uid = ''u4'', roles = [''user''], orgsAdmin = [], orgsMember = [],
     orgsPending = []\<rparr>"

definition mk_proposal ::
  "ident \<Rightarrow> ident \<Rightarrow> string \<Rightarrow> int \<Rightarrow> ident list \<Rightarrow> ident list \<Rightarrow> ident list \<Rightarrow> string
     \<Rightarrow> proposal" where
  "mk_proposal i g ty d t1 t2 t3 st =
     \<lparr>pid = i, p_org = g, opportunity = \<lparr>opportunityTypeCd = ty, deadline = d\<rparr>,
      phases = \<lparr>inception = \<lparr>team = t1\<rparr>, proto = \<lparr>team = t2\<rparr>,
                implementation = \<lparr>team = t3\<rparr>\<rparr>,
      status = st\<rparr>"

definition sample_proposals :: "proposal list" where
  "sample_proposals =
     [mk_proposal ''p1'' ''o1'' ''sprint-with-us'' 2000 [''u1'', ''u2''] [''u2''] [''u3'']
        ''Submitted'',
      mk_proposal ''p2'' ''o1'' ''sprint-with-us'' 500 [''u2''] [] [] ''Submitted'',
      mk_proposal ''p3'' ''o1'' ''code-with-us'' 2000 [] [''u2''] [] ''Submitted'',
      mk_proposal ''p4'' ''o1'' ''sprint-with-us'' 2000 [''u1''] [] [''u3''] ''Submitted'',
      mk_proposal ''p5'' ''o2'' ''sprint-with-us'' 2000 [''u2''] [] [] ''Submitted'']"

definition store0 :: db where
  "store0 =
     \<lparr>orgs = [''o1'' \<mapsto> acme],
      users = [''u1'' \<mapsto> alice, ''u2'' \<mapsto> bob, ''u3'' \<mapsto> carol, ''u4'' \<mapsto> dave],
      proposals = sample_proposals,
      issued = []\<rparr>"

section \<open>Notation for the proposal cleanup\<close>

text \<open>
  Names for the terms that the loop body of \<open>removeUserFromProposals\<close> computes: the
  sum of the three team lengths, the proposal with the user filtered out of the three
  team lists, that proposal with status \<open>Draft\<close>, the condition of the loop body, and the
  comparison of the counts. They are abbreviations and introduce no constants.
\<close>

abbreviation team_count :: "proposal \<Rightarrow> nat" where
  "team_count p \<equiv>
     length (team (inception (phases p))) + length (team (proto (phases p)))
     + length (team (implementation (phases p)))"

abbreviation without_user :: "user \<Rightarrow> proposal \<Rightarrow> proposal" where
  "without_user usr p \<equiv>
     p\<lparr>phases := (phases p)
        \<lparr>inception := (inception (phases p))
           \<lparr>team := filter (\<lambda>m. m \<noteq> uid usr) (team (inception (phases p)))\<rparr>,
         proto := (proto (phases p))
           \<lparr>team := filter (\<lambda>m. m \<noteq> uid usr) (team (proto (phases p)))\<rparr>,
         implementation := (implementation (phases p))
           \<lparr>team := filter (\<lambda>m. m \<noteq> uid usr) (team (implementation (phases p)))\<rparr>\<rparr>\<rparr>"

abbreviation open_sprint :: "int \<Rightarrow> proposal \<Rightarrow> bool" where
  "open_sprint rightNow p \<equiv>
     opportunityTypeCd (opportunity p) = ''sprint-with-us'' \<and> rightNow < deadline (opportunity p)"

abbreviation shrinks :: "user \<Rightarrow> proposal \<Rightarrow> bool" where
  "shrinks usr p \<equiv> team_count (without_user usr p) < team_count p"

abbreviation drafted :: "user \<Rightarrow> proposal \<Rightarrow> proposal" where
  "drafted usr p \<equiv> (without_user usr p)\<lparr>status := ''Draft''\<rparr>"

section \<open>Properties\<close>

lemma indexOf_range: "indexOf xs x = - 1 \<or> 0 \<le> indexOf xs x"
  by (induction xs) (auto simp: Let_def)

lemma indexOf_absent: "indexOf xs x = - 1 \<longleftrightarrow> x \<notin> set xs"
proof (induction xs)
  case Nil
  show ?case by simp
next
  case (Cons y ys)
  have "0 \<le> indexOf ys x \<or> indexOf ys x = - 1"
    using indexOf_range [of ys x] by blast
  with Cons show ?case by (auto simp: Let_def)
qed

lemma indexOf_found: "0 \<le> indexOf xs x \<longleftrightarrow> x \<in> set xs"
  using indexOf_range [of xs x] indexOf_absent [of xs x] by auto

subsection \<open>The authorization check\<close>

text \<open>
  Claim C3. For an org and a user that are both present, \<open>isUserAdmin\<close> is true exactly
  when the user's roles contain the superuser role \<open>admin\<close> or the user's identity is
  among the org's admins; it is false as soon as either argument is missing. The check
  is a function of its two arguments only: it takes no store and returns none.
\<close>

theorem isUserAdmin_iff:
  "isUserAdmin (Some g) (Some u) = (''admin'' \<in> set (roles u) \<or> uid u \<in> set (admins g))
   \<and> isUserAdmin None v = False
   \<and> isUserAdmin w None = False"
  by (simp add: isUserAdmin_def indexOf_found split: option.split)

subsection \<open>Join requests\<close>

text \<open>
  Claim C4. When the signed-in user's identity is already among the org's join requests,
  members or admins, \<open>joinRequest\<close> answers 422 with the conflict message, and the
  request documents and the store (persisted documents and issued calls) are those from
  before the call.
\<close>

theorem joinRequest_conflict:
  assumes "req_user rq = Some u" and "req_org rq = Some g"
    and "uid u \<in> set (joinRequests g) \<union> set (members g) \<union> set (admins g)"
  shows "joinRequest rejects rq s =
    (Inr (Status 422 (Literal
       ''You already have a pending request or are already a member of this company'')), rq, s)"
  using assms by (auto simp: joinRequest_def indexOf_absent)

theorem joinRequest_conflict_witness:
  "uid carol \<in> set (joinRequests acme) \<and> uid bob \<in> set (members acme)
   \<and> uid alice \<in> set (admins acme)
   \<and> joinRequest never \<lparr>req_org = Some acme, req_user = Some carol, req_profile = None\<rparr> store0 =
    (Inr (Status 422 (Literal
       ''You already have a pending request or are already a member of this company'')),
     \<lparr>req_org = Some acme, req_user = Some carol, req_profile = None\<rparr>, store0)
   \<and> joinRequest never \<lparr>req_org = Some acme, req_user = Some bob, req_profile = None\<rparr> store0 =
    (Inr (Status 422 (Literal
       ''You already have a pending request or are already a member of this company'')),
     \<lparr>req_org = Some acme, req_user = Some bob, req_profile = None\<rparr>, store0)
   \<and> joinRequest never \<lparr>req_org = Some acme, req_user = Some alice, req_profile = None\<rparr> store0 =
    (Inr (Status 422 (Literal
       ''You already have a pending request or are already a member of this company'')),
     \<lparr>req_org = Some acme, req_user = Some alice, req_profile = None\<rparr>, store0)"
  using joinRequest_conflict [of "\<lparr>req_org = Some acme, req_user = Some carol, req_profile = None\<rparr>"
      carol acme never store0]
    joinRequest_conflict [of "\<lparr>req_org = Some acme, req_user = Some bob, req_profile = None\<rparr>"
      bob acme never store0]
    joinRequest_conflict [of "\<lparr>req_org = Some acme, req_user = Some alice, req_profile = None\<rparr>"
      alice acme never store0]
  by (simp add: acme_def carol_def bob_def alice_def)

text \<open>
  Claim C5. When an admin calls \<open>acceptRequest\<close> for a user who has no join request on
  the org, or who is a member already, the answer is the org as it was (status 200, no
  error), and the request documents and the store are unchanged.
\<close>

theorem acceptRequest_noop:
  assumes "req_user rq = Some a" and "req_org rq = Some g" and "req_profile rq = Some m"
    and "isUserAdmin (Some g) (Some a)"
    and "uid m \<notin> set (joinRequests g) \<or> uid m \<in> set (members g)"
  shows "acceptRequest rejects rq s = (Inr (Json_org g), rq, s)"
  using assms by (auto simp: acceptRequest_def indexOf_absent)

theorem acceptRequest_noop_witness:
  "isUserAdmin (Some acme) (Some alice)
   \<and> uid dave \<notin> set (joinRequests acme)
   \<and> acceptRequest never
         \<lparr>req_org = Some acme, req_user = Some alice, req_profile = Some dave\<rparr> store0
       = (Inr (Json_org acme),
          \<lparr>req_org = Some acme, req_user = Some alice, req_profile = Some dave\<rparr>, store0)
   \<and> isUserAdmin (Some (acme\<lparr>joinRequests := [''u2'', ''u3'']\<rparr>)) (Some alice)
   \<and> uid bob \<in> set (members (acme\<lparr>joinRequests := [''u2'', ''u3'']\<rparr>))
   \<and> acceptRequest never
         \<lparr>req_org = Some (acme\<lparr>joinRequests := [''u2'', ''u3'']\<rparr>), req_user = Some alice, req_profile = Some bob\<rparr> store0
       = (Inr (Json_org (acme\<lparr>joinRequests := [''u2'', ''u3'']\<rparr>)),
          \<lparr>req_org = Some (acme\<lparr>joinRequests := [''u2'', ''u3'']\<rparr>), req_user = Some alice, req_profile = Some bob\<rparr>, store0)"
  using acceptRequest_noop [of
      "\<lparr>req_org = Some acme, req_user = Some alice, req_profile = Some dave\<rparr>"
      alice acme dave never store0]
    acceptRequest_noop [of
      "\<lparr>req_org = Some (acme\<lparr>joinRequests := [''u2'', ''u3'']\<rparr>), req_user = Some alice, req_profile = Some bob\<rparr>"
      alice "acme\<lparr>joinRequests := [''u2'', ''u3'']\<rparr>" bob never store0]
  by (simp add: acme_def alice_def dave_def bob_def isUserAdmin_def)

subsection \<open>Looking up an org that does not exist\<close>

text \<open>
  Claim C10. \<open>getOrgById\<close> never returns \<open>null\<close>. For an identity with no stored org the
  lookup result \<open>null\<close> goes to \<open>populateOrg\<close>, whose dereference throws, so the call
  ends in a failure: the TypeError when the lookup itself resolved.
\<close>

theorem getOrgById_never_null:
  "fst (getOrgById rejects i s) \<noteq> Inr None
   \<and> (orgs s i = None \<longrightarrow> (\<exists>e. fst (getOrgById rejects i s) = Inl e))
   \<and> (orgs s i = None \<and> \<not> rejects (issued s) (FindOrgById i) \<longrightarrow>
        getOrgById rejects i s
          = (Inl TypeError, s\<lparr>issued := issued s @ [(FindOrgById i, True)]\<rparr>))"
  by (auto simp: getOrgById_def populateOrg_def perform_def commit_def
      split: option.splits prod.splits bool.splits)

theorem getOrgById_never_null_witness:
  "orgs store0 ''o9'' = None
   \<and> \<not> never (issued store0) (FindOrgById ''o9'')
   \<and> getOrgById never ''o9'' store0
       = (Inl TypeError, store0\<lparr>issued := [(FindOrgById ''o9'', True)]\<rparr>)"
  using getOrgById_never_null [of never "''o9''" store0]
  by (simp add: store0_def never_def)


subsection \<open>Acceptance and decline: order of the calls\<close>

lemma notify_then_save:
  fixes s :: db and n r g0 u0 and g' :: org
  defines "c1 \<equiv> issued s @ [(SendMessages n r g0 u0, True)]"
  defines "c2 \<equiv> issued s @ [(SendMessages n r g0 u0, True), (SaveOrg g', True)]"
  shows
  "(case perform rejects (SendMessages n r g0 u0) s of
      (False, s1) \<Rightarrow> (Inl (Rejection (SendMessages n r g0 u0)), rq', s1)
    | (True, s1) \<Rightarrow>
        (case perform rejects (SaveOrg g') s1 of
           (False, s2) \<Rightarrow> (Inr (Status 500 (ErrorMessage (Rejection (SaveOrg g')))), rq', s2)
         | (True, s2) \<Rightarrow>
             (case perform rejects (SaveUser m') s2 of
                (False, s3) \<Rightarrow>
                  (Inr (Status 500 (ErrorMessage (Rejection (SaveUser m')))), rq', s3)
              | (True, s3) \<Rightarrow> (Inr (Json_user_org m' g'), rq', s3))))
   = (if rejects (issued s) (SendMessages n r g0 u0)
      then (Inl (Rejection (SendMessages n r g0 u0)), rq',
            s\<lparr>issued := issued s @ [(SendMessages n r g0 u0, False)]\<rparr>)
      else if rejects c1 (SaveOrg g')
      then (Inr (Status 500 (ErrorMessage (Rejection (SaveOrg g')))), rq',
            s\<lparr>issued := c1 @ [(SaveOrg g', False)]\<rparr>)
      else if rejects c2 (SaveUser m')
      then (Inr (Status 500 (ErrorMessage (Rejection (SaveUser m')))), rq',
            s\<lparr>orgs := (orgs s)(oid g' \<mapsto> g'), issued := c2 @ [(SaveUser m', False)]\<rparr>)
      else (Inr (Json_user_org m' g'), rq',
            s\<lparr>orgs := (orgs s)(oid g' \<mapsto> g'), users := (users s)(uid m' \<mapsto> m'),
              issued := c2 @ [(SaveUser m', True)]\<rparr>))"
  unfolding c1_def c2_def by (simp add: perform_def commit_def)

lemma declineRequest_refused:
  assumes "req_user rq = None \<or> \<not> isUserAdmin (req_org rq) (req_user rq)
           \<or> req_org rq = None \<or> req_profile rq = None"
  shows "\<exists>c t. c \<noteq> 500 \<and>
           (\<forall>rejects s. declineRequest rejects rq s = (Inr (Status c (Literal t)), rq, s))"
proof (cases "req_user rq = None \<or> \<not> isUserAdmin (req_org rq) (req_user rq)")
  case True
  then have "\<forall>rejects s. declineRequest rejects rq s =
      (Inr (Status 403 (Literal
         ''You are not authorized to decline requests for this company'')), rq, s)"
    by (simp add: declineRequest_def)
  then show ?thesis by (intro exI [of _ 403] exI conjI) simp_all
next
  case False
  with assms have "\<forall>rejects s. declineRequest rejects rq s =
      (Inr (Status 422 (Literal ''Invalid decline request'')), rq, s)"
    by (auto simp: declineRequest_def split: option.splits)
  then show ?thesis by (intro exI [of _ 422] exI conjI) simp_all
qed

lemma declineRequest_effective:
  fixes rq :: req and g :: org and m :: user and s :: db
  defines "g' \<equiv> g\<lparr>joinRequests := filter (\<lambda>x. x \<noteq> uid m) (joinRequests g)\<rparr>"
  defines "m' \<equiv> m\<lparr>orgsPending := filter (\<lambda>p. p \<noteq> oid g) (orgsPending m)\<rparr>"
  defines "sent \<equiv> SendMessages ''company-join-request-declined'' [uid m] g' None"
  defines "rq' \<equiv> rq\<lparr>req_org := Some g', req_profile := Some m'\<rparr>"
  assumes "req_user rq = Some a" and "isUserAdmin (Some g) (Some a)"
    and "req_org rq = Some g" and "req_profile rq = Some m"
  shows "declineRequest rejects rq s =
     (if rejects (issued s) sent
      then (Inl (Rejection sent), rq', s\<lparr>issued := issued s @ [(sent, False)]\<rparr>)
      else if rejects (issued s @ [(sent, True)]) (SaveOrg g')
      then (Inr (Status 500 (ErrorMessage (Rejection (SaveOrg g')))), rq',
            s\<lparr>issued := issued s @ [(sent, True), (SaveOrg g', False)]\<rparr>)
      else if rejects (issued s @ [(sent, True), (SaveOrg g', True)]) (SaveUser m')
      then (Inr (Status 500 (ErrorMessage (Rejection (SaveUser m')))), rq',
            s\<lparr>orgs := (orgs s)(oid g \<mapsto> g'),
              issued := issued s @ [(sent, True), (SaveOrg g', True), (SaveUser m', False)]\<rparr>)
      else (Inr (Json_user_org m' g'), rq',
            s\<lparr>orgs := (orgs s)(oid g \<mapsto> g'), users := (users s)(uid m \<mapsto> m'),
              issued := issued s @ [(sent, True), (SaveOrg g', True), (SaveUser m', True)]\<rparr>))"
  using assms(5-8) unfolding g'_def m'_def sent_def rq'_def
  by (simp add: declineRequest_def Let_def notify_then_save)

lemma acceptRequest_refused:
  assumes "req_user rq = None \<or> \<not> isUserAdmin (req_org rq) (req_user rq)
           \<or> req_org rq = None \<or> req_profile rq = None"
  shows "\<exists>c t. acceptRequest rejects rq s = (Inr (Status c (Literal t)), rq, s) \<and> c \<noteq> 500"
  using assms by (auto simp: acceptRequest_def split: option.splits)

lemma acceptRequest_effective:
  fixes rq :: req and g :: org and m :: user and s :: db
  defines "g' \<equiv> g\<lparr>members := members g @ [uid m],
                    joinRequests := filter (\<lambda>x. x \<noteq> uid m) (joinRequests g)\<rparr>"
  defines "m' \<equiv> m\<lparr>orgsPending := filter (\<lambda>p. p \<noteq> oid g) (orgsPending m),
                    orgsMember := orgsMember m @ [oid g]\<rparr>"
  defines "sent \<equiv> SendMessages ''company-join-request-accepted'' [uid m] g' None"
  defines "rq' \<equiv> rq\<lparr>req_org := Some g', req_profile := Some m'\<rparr>"
  assumes "req_user rq = Some a" and "isUserAdmin (Some g) (Some a)"
    and "req_org rq = Some g" and "req_profile rq = Some m"
    and "uid m \<in> set (joinRequests g)" and "uid m \<notin> set (members g)"
  shows "acceptRequest rejects rq s =
     (if rejects (issued s) sent
      then (Inl (Rejection sent), rq', s\<lparr>issued := issued s @ [(sent, False)]\<rparr>)
      else if rejects (issued s @ [(sent, True)]) (SaveOrg g')
      then (Inr (Status 500 (ErrorMessage (Rejection (SaveOrg g')))), rq',
            s\<lparr>issued := issued s @ [(sent, True), (SaveOrg g', False)]\<rparr>)
      else if rejects (issued s @ [(sent, True), (SaveOrg g', True)]) (SaveUser m')
      then (Inr (Status 500 (ErrorMessage (Rejection (SaveUser m')))), rq',
            s\<lparr>orgs := (orgs s)(oid g \<mapsto> g'),
              issued := issued s @ [(sent, True), (SaveOrg g', True), (SaveUser m', False)]\<rparr>)
      else (Inr (Json_user_org m' g'), rq',
            s\<lparr>orgs := (orgs s)(oid g \<mapsto> g'), users := (users s)(uid m \<mapsto> m'),
              issued := issued s @ [(sent, True), (SaveOrg g', True), (SaveUser m', True)]\<rparr>))"
  using assms(5-10) unfolding g'_def m'_def sent_def rq'_def
  by (simp add: acceptRequest_def Let_def notify_then_save indexOf_absent)

lemma acceptRequest_skip:
  assumes "req_user rq = Some a" and "req_org rq = Some g" and "req_profile rq = Some m"
    and "isUserAdmin (Some g) (Some a)"
    and "uid m \<notin> set (joinRequests g) \<or> uid m \<in> set (members g)"
  shows "acceptRequest rejects rq s = (Inr (Json_org g), rq, s)"
  using assms by (auto simp: acceptRequest_def indexOf_absent)

lemma acceptRequest_calls:
  assumes run: "acceptRequest rejects rq s = (out, rq', s')"
  shows "(issued s' = issued s \<and> (\<forall>msg. out \<noteq> Inr (Status 500 msg)))
    \<or> (\<exists>g m. req_org rq' = Some g \<and> req_profile rq' = Some m \<and>
          (issued s' = issued s
              @ [(SendMessages ''company-join-request-accepted'' [uid m] g None, False)]
             \<and> out = Inl (Rejection
                   (SendMessages ''company-join-request-accepted'' [uid m] g None))
           \<or> issued s' = issued s
              @ [(SendMessages ''company-join-request-accepted'' [uid m] g None, True),
                 (SaveOrg g, False)]
             \<and> out = Inr (Status 500 (ErrorMessage (Rejection (SaveOrg g))))
           \<or> issued s' = issued s
              @ [(SendMessages ''company-join-request-accepted'' [uid m] g None, True),
                 (SaveOrg g, True), (SaveUser m, False)]
             \<and> out = Inr (Status 500 (ErrorMessage (Rejection (SaveUser m))))
           \<or> issued s' = issued s
              @ [(SendMessages ''company-join-request-accepted'' [uid m] g None, True),
                 (SaveOrg g, True), (SaveUser m, True)]
             \<and> out = Inr (Json_user_org m g)))"
proof (cases "req_user rq = None \<or> \<not> isUserAdmin (req_org rq) (req_user rq)
           \<or> req_org rq = None \<or> req_profile rq = None")
  case True
  from acceptRequest_refused [OF True, of rejects s] run show ?thesis by auto
next
  case False
  then obtain a g m where docs: "req_user rq = Some a" "req_org rq = Some g"
      "req_profile rq = Some m" "isUserAdmin (Some g) (Some a)"
    by auto
  show ?thesis
  proof (cases "uid m \<in> set (joinRequests g) \<and> uid m \<notin> set (members g)")
    case False
    then have "acceptRequest rejects rq s = (Inr (Json_org g), rq, s)"
      using docs by (intro acceptRequest_skip) auto
    with run show ?thesis by auto
  next
    case True
    note eq = acceptRequest_effective [OF docs(1) docs(4) docs(2) docs(3), of rejects s]
    from True eq run show ?thesis
      by (simp split: if_splits)
  qed
qed

lemma declineRequest_calls:
  assumes run: "declineRequest rejects rq s = (out, rq', s')"
  shows "(issued s' = issued s \<and> (\<forall>msg. out \<noteq> Inr (Status 500 msg)))
    \<or> (\<exists>g m. req_org rq' = Some g \<and> req_profile rq' = Some m \<and>
          (issued s' = issued s
              @ [(SendMessages ''company-join-request-declined'' [uid m] g None, False)]
             \<and> out = Inl (Rejection
                   (SendMessages ''company-join-request-declined'' [uid m] g None))
           \<or> issued s' = issued s
              @ [(SendMessages ''company-join-request-declined'' [uid m] g None, True),
                 (SaveOrg g, False)]
             \<and> out = Inr (Status 500 (ErrorMessage (Rejection (SaveOrg g))))
           \<or> issued s' = issued s
              @ [(SendMessages ''company-join-request-declined'' [uid m] g None, True),
                 (SaveOrg g, True), (SaveUser m, False)]
             \<and> out = Inr (Status 500 (ErrorMessage (Rejection (SaveUser m))))
           \<or> issued s' = issued s
              @ [(SendMessages ''company-join-request-declined'' [uid m] g None, True),
                 (SaveOrg g, True), (SaveUser m, True)]
             \<and> out = Inr (Json_user_org m g)))"
proof (cases "req_user rq = None \<or> \<not> isUserAdmin (req_org rq) (req_user rq)
           \<or> req_org rq = None \<or> req_profile rq = None")
  case True
  from declineRequest_refused [OF True] run show ?thesis by auto
next
  case False
  then obtain a g m where docs: "req_user rq = Some a" "req_org rq = Some g"
      "req_profile rq = Some m" "isUserAdmin (Some g) (Some a)"
    by auto
  note eq = declineRequest_effective [OF docs(1) docs(4) docs(2) docs(3), of rejects s]
  from eq run show ?thesis
    by (simp split: if_splits)
qed

text \<open>
  Claim C9. In \<open>acceptRequest\<close> and in \<open>declineRequest\<close> the notification to the
  requesting user is the first call issued, and the org and the user are saved only after
  it has resolved. A run either issues no call at all (and does not answer 500), or it
  issues the notification and then, only if that resolved, the save of the org and, if
  that resolved, the save of the user. So whenever the answer is the 500 of the
  persistence-error branch, the notification has been sent before.
\<close>

theorem notification_precedes_persistence:
  "(acceptRequest rejects rq s = (out, rq', s') \<longrightarrow>
      (issued s' = issued s \<and> (\<forall>msg. out \<noteq> Inr (Status 500 msg)))
    \<or> (\<exists>g m. req_org rq' = Some g \<and> req_profile rq' = Some m \<and>
          (issued s' = issued s
              @ [(SendMessages ''company-join-request-accepted'' [uid m] g None, False)]
             \<and> out = Inl (Rejection
                   (SendMessages ''company-join-request-accepted'' [uid m] g None))
           \<or> issued s' = issued s
              @ [(SendMessages ''company-join-request-accepted'' [uid m] g None, True),
                 (SaveOrg g, False)]
             \<and> out = Inr (Status 500 (ErrorMessage (Rejection (SaveOrg g))))
           \<or> issued s' = issued s
              @ [(SendMessages ''company-join-request-accepted'' [uid m] g None, True),
                 (SaveOrg g, True), (SaveUser m, False)]
             \<and> out = Inr (Status 500 (ErrorMessage (Rejection (SaveUser m))))
           \<or> issued s' = issued s
              @ [(SendMessages ''company-join-request-accepted'' [uid m] g None, True),
                 (SaveOrg g, True), (SaveUser m, True)]
             \<and> out = Inr (Json_user_org m g))))
   \<and> (declineRequest rejects rq s = (out, rq', s') \<longrightarrow>
      (issued s' = issued s \<and> (\<forall>msg. out \<noteq> Inr (Status 500 msg)))
    \<or> (\<exists>g m. req_org rq' = Some g \<and> req_profile rq' = Some m \<and>
          (issued s' = issued s
              @ [(SendMessages ''company-join-request-declined'' [uid m] g None, False)]
             \<and> out = Inl (Rejection
                   (SendMessages ''company-join-request-declined'' [uid m] g None))
           \<or> issued s' = issued s
              @ [(SendMessages ''company-join-request-declined'' [uid m] g None, True),
                 (SaveOrg g, False)]
             \<and> out = Inr (Status 500 (ErrorMessage (Rejection (SaveOrg g))))
           \<or> issued s' = issued s
              @ [(SendMessages ''company-join-request-declined'' [uid m] g None, True),
                 (SaveOrg g, True), (SaveUser m, False)]
             \<and> out = Inr (Status 500 (ErrorMessage (Rejection (SaveUser m))))
           \<or> issued s' = issued s
              @ [(SendMessages ''company-join-request-declined'' [uid m] g None, True),
                 (SaveOrg g, True), (SaveUser m, True)]
             \<and> out = Inr (Json_user_org m g))))"
  using acceptRequest_calls [of rejects rq s out rq' s']
    declineRequest_calls [of rejects rq s out rq' s']
  by blast


theorem notification_precedes_persistence_witness:
  "acceptRequest org_save_rejected
      \<lparr>req_org = Some acme, req_user = Some alice, req_profile = Some carol\<rparr> store0
    = (Inr (Status 500 (ErrorMessage (Rejection (SaveOrg
            (acme\<lparr>members := [''u1'', ''u2'', ''u3''], joinRequests := []\<rparr>))))),
       \<lparr>req_org = Some (acme\<lparr>members := [''u1'', ''u2'', ''u3''], joinRequests := []\<rparr>),
        req_user = Some alice,
        req_profile = Some (carol\<lparr>orgsPending := [], orgsMember := [''o1'']\<rparr>)\<rparr>,
       store0\<lparr>issued :=
         [(SendMessages ''company-join-request-accepted'' [''u3'']
             (acme\<lparr>members := [''u1'', ''u2'', ''u3''], joinRequests := []\<rparr>) None, True),
          (SaveOrg (acme\<lparr>members := [''u1'', ''u2'', ''u3''], joinRequests := []\<rparr>),
           False)]\<rparr>)
   \<and> declineRequest user_save_rejected
      \<lparr>req_org = Some acme, req_user = Some alice, req_profile = Some carol\<rparr> store0
    = (Inr (Status 500 (ErrorMessage (Rejection (SaveUser (carol\<lparr>orgsPending := []\<rparr>))))),
       \<lparr>req_org = Some (acme\<lparr>joinRequests := []\<rparr>),
        req_user = Some alice,
        req_profile = Some (carol\<lparr>orgsPending := []\<rparr>)\<rparr>,
       store0\<lparr>orgs := [''o1'' \<mapsto> acme\<lparr>joinRequests := []\<rparr>],
         issued :=
         [(SendMessages ''company-join-request-declined'' [''u3'']
             (acme\<lparr>joinRequests := []\<rparr>) None, True),
          (SaveOrg (acme\<lparr>joinRequests := []\<rparr>), True),
          (SaveUser (carol\<lparr>orgsPending := []\<rparr>), False)]\<rparr>)"
  using notification_precedes_persistence [of org_save_rejected
      "\<lparr>req_org = Some acme, req_user = Some alice, req_profile = Some carol\<rparr>" store0]
    notification_precedes_persistence [of user_save_rejected
      "\<lparr>req_org = Some acme, req_user = Some alice, req_profile = Some carol\<rparr>" store0]
  by (simp add: acceptRequest_def declineRequest_def isUserAdmin_def perform_def commit_def Let_def
      org_save_rejected_def user_save_rejected_def acme_def alice_def carol_def store0_def)

lemma isUserAdmin_admins:
  "admins g' = admins g \<Longrightarrow> isUserAdmin (Some g') u = isUserAdmin (Some g) u"
  by (simp add: isUserAdmin_def split: option.splits)

lemma declineRequest_docs:
  assumes "req_user rq = Some a" and "isUserAdmin (Some g) (Some a)"
    and "req_org rq = Some g" and "req_profile rq = Some m"
  shows "fst (snd (declineRequest rejects rq s)) =
     rq\<lparr>req_org := Some (g\<lparr>joinRequests := filter (\<lambda>x. x \<noteq> uid m) (joinRequests g)\<rparr>),
        req_profile := Some (m\<lparr>orgsPending := filter (\<lambda>p. p \<noteq> oid g) (orgsPending m)\<rparr>)\<rparr>"
  by (simp add: declineRequest_effective [OF assms])

lemma declineRequest_resolved:
  assumes "req_user rq = Some a" and "isUserAdmin (Some g) (Some a)"
    and "req_org rq = Some g" and "req_profile rq = Some m"
    and "\<forall>c e. \<not> rejects c e"
  shows "fst (declineRequest rejects rq s) =
       Inr (Json_user_org
         (m\<lparr>orgsPending := filter (\<lambda>p. p \<noteq> oid g) (orgsPending m)\<rparr>)
         (g\<lparr>joinRequests := filter (\<lambda>x. x \<noteq> uid m) (joinRequests g)\<rparr>))"
    and "orgs (snd (snd (declineRequest rejects rq s))) =
       (orgs s)(oid g \<mapsto> g\<lparr>joinRequests := filter (\<lambda>x. x \<noteq> uid m) (joinRequests g)\<rparr>)"
    and "users (snd (snd (declineRequest rejects rq s))) =
       (users s)(uid m \<mapsto> m\<lparr>orgsPending := filter (\<lambda>p. p \<noteq> oid g) (orgsPending m)\<rparr>)"
  using assms(5) by (simp_all add: declineRequest_effective [OF assms(1-4)])

text \<open>
  Claim C6. \<open>declineRequest\<close> is idempotent. A second call on the documents and the store
  that the first call left behind leaves the request documents as they were after the
  first call, so the org's join requests and the user's pending orgs are the same after
  two calls as after one; when no promise is rejected the persisted orgs and users and
  the answer agree as well. When an admin declines a user whose identity is not among the
  join requests, the org is unchanged and, when no promise is rejected, the answer is the
  regular one (user and org), not an error.
\<close>

theorem declineRequest_idempotent:
  assumes first: "declineRequest rejects rq s = (out1, rq1, s1)"
    and second: "declineRequest rejects' rq1 s1 = (out2, rq2, s2)"
  shows "rq2 = rq1
    \<and> ((\<forall>c e. \<not> rejects c e) \<and> (\<forall>c e. \<not> rejects' c e)
          \<longrightarrow> orgs s2 = orgs s1 \<and> users s2 = users s1 \<and> out2 = out1)
    \<and> (\<forall>a g m. req_user rq = Some a \<and> isUserAdmin (Some g) (Some a)
           \<and> req_org rq = Some g \<and> req_profile rq = Some m
           \<and> uid m \<notin> set (joinRequests g)
          \<longrightarrow> req_org rq1 = Some g
              \<and> ((\<forall>c e. \<not> rejects c e) \<longrightarrow>
                   out1 = Inr (Json_user_org
                     (m\<lparr>orgsPending := filter (\<lambda>p. p \<noteq> oid g) (orgsPending m)\<rparr>) g)))"
proof -
  have p1: "out1 = fst (declineRequest rejects rq s)"
    "rq1 = fst (snd (declineRequest rejects rq s))"
    "s1 = snd (snd (declineRequest rejects rq s))"
    by (simp_all only: first fst_conv snd_conv)
  have p2: "out2 = fst (declineRequest rejects' rq1 s1)"
    "rq2 = fst (snd (declineRequest rejects' rq1 s1))"
    "s2 = snd (snd (declineRequest rejects' rq1 s1))"
    by (simp_all only: second fst_conv snd_conv)
  show ?thesis
  proof (cases "req_user rq = None \<or> \<not> isUserAdmin (req_org rq) (req_user rq)
           \<or> req_org rq = None \<or> req_profile rq = None")
    case True
    from declineRequest_refused [OF True] obtain c t where
      r: "\<And>rejects s. declineRequest rejects rq s = (Inr (Status c (Literal t)), rq, s)"
      by blast
    have 1: "rq1 = rq" "s1 = s" "out1 = Inr (Status c (Literal t))"
      unfolding p1 by (simp_all only: r fst_conv snd_conv)
    have 2: "rq2 = rq" "s2 = s" "out2 = Inr (Status c (Literal t))"
      unfolding p2 1 by (simp_all only: r fst_conv snd_conv)
    have "\<not> (req_user rq = Some a \<and> isUserAdmin (Some g) (Some a)
           \<and> req_org rq = Some g \<and> req_profile rq = Some m)" for a g m
      using True by auto
    with 1 2 show ?thesis by blast
  next
    case False
    then obtain a g m where docs: "req_user rq = Some a" "isUserAdmin (Some g) (Some a)"
      "req_org rq = Some g" "req_profile rq = Some m"
      by auto
    define g' where "g' = g\<lparr>joinRequests := filter (\<lambda>x. x \<noteq> uid m) (joinRequests g)\<rparr>"
    define m' where "m' = m\<lparr>orgsPending := filter (\<lambda>p. p \<noteq> oid g) (orgsPending m)\<rparr>"
    have rq1: "rq1 = rq\<lparr>req_org := Some g', req_profile := Some m'\<rparr>"
      unfolding p1 g'_def m'_def by (rule declineRequest_docs [OF docs])
    have "admins g' = admins g" by (simp add: g'_def)
    from isUserAdmin_admins [OF this] docs(2) have adm: "isUserAdmin (Some g') (Some a)"
      by blast
    have docs': "req_user rq1 = Some a" "isUserAdmin (Some g') (Some a)"
      "req_org rq1 = Some g'" "req_profile rq1 = Some m'"
      using docs(1) adm by (simp_all add: rq1)
    have ids: "oid g' = oid g" "uid m' = uid m"
      by (simp_all add: g'_def m'_def)
    have idem: "g'\<lparr>joinRequests := filter (\<lambda>x. x \<noteq> uid m) (joinRequests g')\<rparr> = g'"
      "m'\<lparr>orgsPending := filter (\<lambda>p. p \<noteq> oid g) (orgsPending m')\<rparr> = m'"
      by (simp_all add: g'_def m'_def)
    have "rq2 = rq1\<lparr>req_org := Some g', req_profile := Some m'\<rparr>"
      unfolding p2(2) using declineRequest_docs [OF docs', of rejects' s1]
      by (simp only: ids idem)
    then have rq2: "rq2 = rq1" by (simp add: rq1)
    have persisted: "orgs s2 = orgs s1 \<and> users s2 = users s1 \<and> out2 = out1"
      if ok: "\<forall>c e. \<not> rejects c e" and ok': "\<forall>c e. \<not> rejects' c e"
    proof -
      note a = declineRequest_resolved [OF docs ok, of s, folded g'_def m'_def p1]
      note b = declineRequest_resolved [OF docs' ok', of s1, unfolded ids idem, folded p2]
      from a b show ?thesis by simp
    qed
    have absent: "req_org rq1 = Some g
              \<and> ((\<forall>c e. \<not> rejects c e) \<longrightarrow>
                   out1 = Inr (Json_user_org
                     (m\<lparr>orgsPending := filter (\<lambda>p. p \<noteq> oid g) (orgsPending m)\<rparr>) g))"
      if "uid m \<notin> set (joinRequests g)"
    proof -
      from that have "filter (\<lambda>x. x \<noteq> uid m) (joinRequests g) = joinRequests g"
        by (auto simp: filter_id_conv)
      then have g: "g' = g" by (simp add: g'_def)
      have "out1 = Inr (Json_user_org m' g')" if ok: "\<forall>c e. \<not> rejects c e"
        unfolding p1 g'_def m'_def by (rule declineRequest_resolved(1) [OF docs ok])
      then show ?thesis by (simp add: rq1 g m'_def)
    qed
    show ?thesis
    proof (intro conjI allI impI)
      show "rq2 = rq1" by (rule rq2)
    next
      assume "(\<forall>c e. \<not> rejects c e) \<and> (\<forall>c e. \<not> rejects' c e)"
      with persisted show "orgs s2 = orgs s1" "users s2 = users s1" "out2 = out1" by blast+
    next
      fix a0 g0 m0
      assume h: "req_user rq = Some a0 \<and> isUserAdmin (Some g0) (Some a0)
           \<and> req_org rq = Some g0 \<and> req_profile rq = Some m0
           \<and> uid m0 \<notin> set (joinRequests g0)"
      with docs have same: "g0 = g" "m0 = m" "uid m \<notin> set (joinRequests g)" by simp_all
      with absent show "req_org rq1 = Some g0" by blast
      assume "\<forall>c e. \<not> rejects c e"
      with same absent show "out1 = Inr (Json_user_org
                     (m0\<lparr>orgsPending := filter (\<lambda>p. p \<noteq> oid g0) (orgsPending m0)\<rparr>) g0)"
        by blast
    qed
  qed
qed

theorem declineRequest_idempotent_witness:
  "isUserAdmin (Some acme) (Some alice)
   \<and> uid dave \<notin> set (joinRequests acme)
   \<and> fst (snd (declineRequest never
          (fst (snd (declineRequest never
             \<lparr>req_org = Some acme, req_user = Some alice, req_profile = Some dave\<rparr> store0)))
          (snd (snd (declineRequest never
             \<lparr>req_org = Some acme, req_user = Some alice, req_profile = Some dave\<rparr> store0)))))
     = \<lparr>req_org = Some acme, req_user = Some alice, req_profile = Some dave\<rparr>
   \<and> declineRequest never
         \<lparr>req_org = Some acme, req_user = Some alice, req_profile = Some dave\<rparr> store0
     = (Inr (Json_user_org dave acme),
        \<lparr>req_org = Some acme, req_user = Some alice, req_profile = Some dave\<rparr>,
        store0\<lparr>orgs := [''o1'' \<mapsto> acme],
          users := (users store0)(''u4'' \<mapsto> dave),
          issued := [(SendMessages ''company-join-request-declined'' [''u4''] acme None, True),
                     (SaveOrg acme, True), (SaveUser dave, True)]\<rparr>)"
  using declineRequest_idempotent [of never
      "\<lparr>req_org = Some acme, req_user = Some alice, req_profile = Some dave\<rparr>" store0
      "Inr (Json_user_org dave acme)"
      "\<lparr>req_org = Some acme, req_user = Some alice, req_profile = Some dave\<rparr>"
      "store0\<lparr>orgs := [''o1'' \<mapsto> acme],
          users := (users store0)(''u4'' \<mapsto> dave),
          issued := [(SendMessages ''company-join-request-declined'' [''u4''] acme None, True),
                     (SaveOrg acme, True), (SaveUser dave, True)]\<rparr>"
      never
      "fst (declineRequest never
          \<lparr>req_org = Some acme, req_user = Some alice, req_profile = Some dave\<rparr>
          (store0\<lparr>orgs := [''o1'' \<mapsto> acme],
          users := (users store0)(''u4'' \<mapsto> dave),
          issued := [(SendMessages ''company-join-request-declined'' [''u4''] acme None, True),
                     (SaveOrg acme, True), (SaveUser dave, True)]\<rparr>))"
      "fst (snd (declineRequest never
          \<lparr>req_org = Some acme, req_user = Some alice, req_profile = Some dave\<rparr>
          (store0\<lparr>orgs := [''o1'' \<mapsto> acme],
          users := (users store0)(''u4'' \<mapsto> dave),
          issued := [(SendMessages ''company-join-request-declined'' [''u4''] acme None, True),
                     (SaveOrg acme, True), (SaveUser dave, True)]\<rparr>)))"
      "snd (snd (declineRequest never
          \<lparr>req_org = Some acme, req_user = Some alice, req_profile = Some dave\<rparr>
          (store0\<lparr>orgs := [''o1'' \<mapsto> acme],
          users := (users store0)(''u4'' \<mapsto> dave),
          issued := [(SendMessages ''company-join-request-declined'' [''u4''] acme None, True),
                     (SaveOrg acme, True), (SaveUser dave, True)]\<rparr>)))"]
  by (simp add: declineRequest_def isUserAdmin_def perform_def commit_def Let_def never_def
      acme_def alice_def dave_def store0_def)


subsection \<open>Request then acceptance\<close>

lemma joinRequest_docs:
  assumes "uid u \<notin> set (joinRequests g) \<union> set (members g) \<union> set (admins g)"
  shows "fst (snd (joinRequest rejects \<lparr>req_org = Some g, req_user = Some u, req_profile = p0\<rparr> s))
    = \<lparr>req_org = Some (g\<lparr>joinRequests := joinRequests g @ [uid u]\<rparr>),
       req_user = Some (u\<lparr>orgsPending := orgsPending u @ [oid g]\<rparr>),
       req_profile = p0\<rparr>"
  using assms
  by (simp add: joinRequest_def indexOf_absent Let_def perform_def)

lemma joinRequest_resolved:
  assumes "uid u \<notin> set (joinRequests g) \<union> set (members g) \<union> set (admins g)"
    and "\<forall>c e. \<not> rejects c e"
  shows "orgs (snd (snd (joinRequest rejects
            \<lparr>req_org = Some g, req_user = Some u, req_profile = p0\<rparr> s)))
         = (orgs s)(oid g \<mapsto> g\<lparr>joinRequests := joinRequests g @ [uid u]\<rparr>)"
    and "users (snd (snd (joinRequest rejects
            \<lparr>req_org = Some g, req_user = Some u, req_profile = p0\<rparr> s)))
         = (users s)(uid u \<mapsto> u\<lparr>orgsPending := orgsPending u @ [oid g]\<rparr>)"
    and "fst (joinRequest rejects \<lparr>req_org = Some g, req_user = Some u, req_profile = p0\<rparr> s)
         = Inr (Json_user_org (u\<lparr>orgsPending := orgsPending u @ [oid g]\<rparr>)
                  (g\<lparr>joinRequests := joinRequests g @ [uid u]\<rparr>))"
  using assms
  by (simp_all add: joinRequest_def indexOf_absent Let_def perform_def commit_def)

lemma acceptRequest_docs:
  assumes "req_user rq = Some a" and "isUserAdmin (Some g) (Some a)"
    and "req_org rq = Some g" and "req_profile rq = Some m"
    and "uid m \<in> set (joinRequests g)" and "uid m \<notin> set (members g)"
  shows "fst (snd (acceptRequest rejects rq s)) =
     rq\<lparr>req_org := Some (g\<lparr>members := members g @ [uid m],
                    joinRequests := filter (\<lambda>x. x \<noteq> uid m) (joinRequests g)\<rparr>),
        req_profile := Some (m\<lparr>orgsPending := filter (\<lambda>p. p \<noteq> oid g) (orgsPending m),
                    orgsMember := orgsMember m @ [oid g]\<rparr>)\<rparr>"
  by (simp add: acceptRequest_effective [OF assms])

lemma acceptRequest_resolved:
  assumes "req_user rq = Some a" and "isUserAdmin (Some g) (Some a)"
    and "req_org rq = Some g" and "req_profile rq = Some m"
    and "uid m \<in> set (joinRequests g)" and "uid m \<notin> set (members g)"
    and "\<forall>c e. \<not> rejects c e"
  shows "fst (acceptRequest rejects rq s) =
       Inr (Json_user_org
         (m\<lparr>orgsPending := filter (\<lambda>p. p \<noteq> oid g) (orgsPending m),
            orgsMember := orgsMember m @ [oid g]\<rparr>)
         (g\<lparr>members := members g @ [uid m],
            joinRequests := filter (\<lambda>x. x \<noteq> uid m) (joinRequests g)\<rparr>))"
    and "orgs (snd (snd (acceptRequest rejects rq s))) =
       (orgs s)(oid g \<mapsto> g\<lparr>members := members g @ [uid m],
            joinRequests := filter (\<lambda>x. x \<noteq> uid m) (joinRequests g)\<rparr>)"
    and "users (snd (snd (acceptRequest rejects rq s))) =
       (users s)(uid m \<mapsto> m\<lparr>orgsPending := filter (\<lambda>p. p \<noteq> oid g) (orgsPending m),
            orgsMember := orgsMember m @ [oid g]\<rparr>)"
  using assms(7) by (simp_all add: acceptRequest_effective [OF assms(1-6)])

text \<open>
  Claim C7. A user who is neither requester, member nor admin of the org requests to
  join, and an admin then accepts the request on the documents the join request left.
  Afterwards the user's identity is among the org's members and not among its join
  requests, and the org is among the user's member orgs and not among the pending ones.
  When no promise of the first call is rejected, the documents it persisted are the ones
  it left in the request, so reloading them gives the same second call; when none of the
  second call is rejected, the answer carries the two documents and both are persisted.
\<close>

theorem requestJoin_then_accept:
  assumes unrelated: "uid u \<notin> set (joinRequests g) \<union> set (members g) \<union> set (admins g)"
    and admin: "isUserAdmin (Some g) (Some a)"
    and join: "joinRequest rejects \<lparr>req_org = Some g, req_user = Some u, req_profile = p0\<rparr> s
                 = (out1, rq1, s1)"
    and accept: "acceptRequest rejects'
                   \<lparr>req_org = req_org rq1, req_user = Some a, req_profile = req_user rq1\<rparr> s1
                 = (out2, rq2, s2)"
  shows "\<exists>g2 u2. req_org rq2 = Some g2 \<and> req_profile rq2 = Some u2
     \<and> uid u \<in> set (members g2) \<and> uid u \<notin> set (joinRequests g2)
     \<and> oid g \<in> set (orgsMember u2) \<and> oid g \<notin> set (orgsPending u2)
     \<and> ((\<forall>c e. \<not> rejects c e) \<longrightarrow>
            orgs s1 (oid g) = req_org rq1 \<and> users s1 (uid u) = req_user rq1)
     \<and> ((\<forall>c e. \<not> rejects' c e) \<longrightarrow>
            out2 = Inr (Json_user_org u2 g2)
            \<and> orgs s2 (oid g) = Some g2 \<and> users s2 (uid u) = Some u2)"
proof -
  define g1 where "g1 = g\<lparr>joinRequests := joinRequests g @ [uid u]\<rparr>"
  define u1 where "u1 = u\<lparr>orgsPending := orgsPending u @ [oid g]\<rparr>"
  define g2 where "g2 = g1\<lparr>members := members g1 @ [uid u1],
                    joinRequests := filter (\<lambda>x. x \<noteq> uid u1) (joinRequests g1)\<rparr>"
  define u2 where "u2 = u1\<lparr>orgsPending := filter (\<lambda>p. p \<noteq> oid g1) (orgsPending u1),
                    orgsMember := orgsMember u1 @ [oid g1]\<rparr>"
  define rqa where "rqa = \<lparr>req_org = Some g1, req_user = Some a, req_profile = Some u1\<rparr>"
  have p1: "out1 = fst (joinRequest rejects
                \<lparr>req_org = Some g, req_user = Some u, req_profile = p0\<rparr> s)"
    "rq1 = fst (snd (joinRequest rejects
                \<lparr>req_org = Some g, req_user = Some u, req_profile = p0\<rparr> s))"
    "s1 = snd (snd (joinRequest rejects
                \<lparr>req_org = Some g, req_user = Some u, req_profile = p0\<rparr> s))"
    by (simp_all only: join fst_conv snd_conv)
  have rq1: "rq1 = \<lparr>req_org = Some g1, req_user = Some u1, req_profile = p0\<rparr>"
    unfolding p1 g1_def u1_def by (rule joinRequest_docs [OF unrelated])
  then have rqa: "\<lparr>req_org = req_org rq1, req_user = Some a, req_profile = req_user rq1\<rparr> = rqa"
    by (simp add: rqa_def)
  have p2: "out2 = fst (acceptRequest rejects' rqa s1)"
    "rq2 = fst (snd (acceptRequest rejects' rqa s1))"
    "s2 = snd (snd (acceptRequest rejects' rqa s1))"
    using accept unfolding rqa by (simp_all only: fst_conv snd_conv)
  have "admins g1 = admins g" by (simp add: g1_def)
  from isUserAdmin_admins [OF this] admin have adm: "isUserAdmin (Some g1) (Some a)"
    by blast
  have docs: "req_user rqa = Some a" "isUserAdmin (Some g1) (Some a)"
    "req_org rqa = Some g1" "req_profile rqa = Some u1"
    "uid u1 \<in> set (joinRequests g1)" "uid u1 \<notin> set (members g1)"
    using adm unrelated by (simp_all add: rqa_def g1_def u1_def)
  have rq2: "rq2 = rqa\<lparr>req_org := Some g2, req_profile := Some u2\<rparr>"
    unfolding p2 g2_def u2_def by (rule acceptRequest_docs [OF docs])
  have ids: "uid u1 = uid u" "oid g1 = oid g"
    by (simp_all add: g1_def u1_def)
  have facts: "uid u \<in> set (members g2)" "uid u \<notin> set (joinRequests g2)"
    "oid g \<in> set (orgsMember u2)" "oid g \<notin> set (orgsPending u2)"
    by (simp_all add: g2_def u2_def ids)
  have persisted1: "orgs s1 (oid g) = req_org rq1 \<and> users s1 (uid u) = req_user rq1"
    if ok: "\<forall>c e. \<not> rejects c e"
    using joinRequest_resolved(1,2) [OF unrelated ok, of p0 s, folded p1 g1_def u1_def]
    by (simp add: rq1)
  have persisted2: "out2 = Inr (Json_user_org u2 g2)
            \<and> orgs s2 (oid g) = Some g2 \<and> users s2 (uid u) = Some u2"
    if ok: "\<forall>c e. \<not> rejects' c e"
    using acceptRequest_resolved [OF docs ok, of s1, folded p2 g2_def u2_def]
    by (simp add: ids)
  from rq2 facts persisted1 persisted2 show ?thesis
    by (intro exI [of _ g2] exI [of _ u2]) simp
qed

theorem requestJoin_then_accept_witness:
  "uid dave \<notin> set (joinRequests acme) \<union> set (members acme) \<union> set (admins acme)
   \<and> isUserAdmin (Some acme) (Some alice)
   \<and> fst (acceptRequest never
      \<lparr>req_org = req_org (fst (snd (joinRequest never \<lparr>req_org = Some acme, req_user = Some dave, req_profile = None\<rparr> store0))), req_user = Some alice,
        req_profile = req_user (fst (snd (joinRequest never \<lparr>req_org = Some acme, req_user = Some dave, req_profile = None\<rparr> store0)))\<rparr>
      (snd (snd (joinRequest never \<lparr>req_org = Some acme, req_user = Some dave, req_profile = None\<rparr> store0))))
     = Inr (Json_user_org (dave\<lparr>orgsPending := [], orgsMember := [''o1'']\<rparr>)
         (acme\<lparr>members := [''u1'', ''u2'', ''u4''], joinRequests := [''u3'']\<rparr>))
   \<and> orgs (snd (snd (acceptRequest never
      \<lparr>req_org = req_org (fst (snd (joinRequest never \<lparr>req_org = Some acme, req_user = Some dave, req_profile = None\<rparr> store0))), req_user = Some alice,
        req_profile = req_user (fst (snd (joinRequest never \<lparr>req_org = Some acme, req_user = Some dave, req_profile = None\<rparr> store0)))\<rparr>
      (snd (snd (joinRequest never \<lparr>req_org = Some acme, req_user = Some dave, req_profile = None\<rparr> store0)))))) ''o1''
     = Some (acme\<lparr>members := [''u1'', ''u2'', ''u4''], joinRequests := [''u3'']\<rparr>)
   \<and> users (snd (snd (acceptRequest never
      \<lparr>req_org = req_org (fst (snd (joinRequest never \<lparr>req_org = Some acme, req_user = Some dave, req_profile = None\<rparr> store0))), req_user = Some alice,
        req_profile = req_user (fst (snd (joinRequest never \<lparr>req_org = Some acme, req_user = Some dave, req_profile = None\<rparr> store0)))\<rparr>
      (snd (snd (joinRequest never \<lparr>req_org = Some acme, req_user = Some dave, req_profile = None\<rparr> store0)))))) ''u4''
     = Some (dave\<lparr>orgsPending := [], orgsMember := [''o1'']\<rparr>)"
  using requestJoin_then_accept [of dave acme alice never None store0
      "fst (joinRequest never \<lparr>req_org = Some acme, req_user = Some dave, req_profile = None\<rparr> store0)" "fst (snd (joinRequest never \<lparr>req_org = Some acme, req_user = Some dave, req_profile = None\<rparr> store0))" "snd (snd (joinRequest never \<lparr>req_org = Some acme, req_user = Some dave, req_profile = None\<rparr> store0))" never
      "fst (acceptRequest never
      \<lparr>req_org = req_org (fst (snd (joinRequest never \<lparr>req_org = Some acme, req_user = Some dave, req_profile = None\<rparr> store0))), req_user = Some alice,
        req_profile = req_user (fst (snd (joinRequest never \<lparr>req_org = Some acme, req_user = Some dave, req_profile = None\<rparr> store0)))\<rparr>
      (snd (snd (joinRequest never \<lparr>req_org = Some acme, req_user = Some dave, req_profile = None\<rparr> store0))))" "fst (snd (acceptRequest never
      \<lparr>req_org = req_org (fst (snd (joinRequest never \<lparr>req_org = Some acme, req_user = Some dave, req_profile = None\<rparr> store0))), req_user = Some alice,
        req_profile = req_user (fst (snd (joinRequest never \<lparr>req_org = Some acme, req_user = Some dave, req_profile = None\<rparr> store0)))\<rparr>
      (snd (snd (joinRequest never \<lparr>req_org = Some acme, req_user = Some dave, req_profile = None\<rparr> store0)))))" "snd (snd (acceptRequest never
      \<lparr>req_org = req_org (fst (snd (joinRequest never \<lparr>req_org = Some acme, req_user = Some dave, req_profile = None\<rparr> store0))), req_user = Some alice,
        req_profile = req_user (fst (snd (joinRequest never \<lparr>req_org = Some acme, req_user = Some dave, req_profile = None\<rparr> store0)))\<rparr>
      (snd (snd (joinRequest never \<lparr>req_org = Some acme, req_user = Some dave, req_profile = None\<rparr> store0)))))"]
  by (simp add: joinRequest_def acceptRequest_def isUserAdmin_def perform_def commit_def
      Let_def never_def acme_def alice_def dave_def store0_def)

subsection \<open>Restricted read\<close>

lemma pick_keys: "set (map fst (pick object paths)) \<subseteq> set paths"
proof (cases object)
  case None
  then show ?thesis by (simp add: pick_def)
next
  case (Some obj)
  have "set (map fst (List.map_filter (\<lambda>k. map_option (Pair k) (map_of obj k)) ks)) \<subseteq> set ks"
    for ks
    by (induction ks) (auto simp: List.map_filter_simps split: option.splits)
  with Some show ?thesis by (simp add: pick_def)
qed

lemma pick_org_object:
  "pick (Some (org_object g)) [''_id'', ''orgImageURL'', ''name'', ''website'', ''capabilities'']
   = [(''_id'', JString (oid g)), (''orgImageURL'', JString (orgImageURL g)),
      (''name'', JString (name g)), (''website'', JString (website g)),
      (''capabilities'', JRefs (capabilities g))]"
  by (simp add: pick_def org_object_def List.map_filter_simps)

text \<open>
  Claim C8. For a caller who is not signed in or who fails the admin check, \<open>read\<close>
  answers an object whose fields are among \<open>_id\<close>, \<open>orgImageURL\<close>, \<open>name\<close>, \<open>website\<close> and
  \<open>capabilities\<close>; it has no \<open>admins\<close>, \<open>members\<close>, \<open>joinRequests\<close> or \<open>owner\<close> field. For an
  org that is present the object consists of exactly those five fields of the org.
\<close>

theorem read_restricted:
  assumes "req_user rq = None \<or> \<not> isUserAdmin (req_org rq) (req_user rq)"
  shows "\<exists>obj. read rq = Json_object obj
     \<and> set (map fst obj) \<subseteq> {''_id'', ''orgImageURL'', ''name'', ''website'', ''capabilities''}
     \<and> ''admins'' \<notin> set (map fst obj) \<and> ''members'' \<notin> set (map fst obj)
     \<and> ''joinRequests'' \<notin> set (map fst obj) \<and> ''owner'' \<notin> set (map fst obj)
     \<and> (\<forall>g. req_org rq = Some g \<longrightarrow>
           obj = [(''_id'', JString (oid g)), (''orgImageURL'', JString (orgImageURL g)),
                  (''name'', JString (name g)), (''website'', JString (website g)),
                  (''capabilities'', JRefs (capabilities g))])"
proof -
  define obj where "obj = pick (map_option org_object (req_org rq))
      [''_id'', ''orgImageURL'', ''name'', ''website'', ''capabilities'']"
  have r: "read rq = Json_object obj"
    using assms by (auto simp: read_def obj_def)
  have keys: "set (map fst obj) \<subseteq> {''_id'', ''orgImageURL'', ''name'', ''website'', ''capabilities''}"
    using pick_keys [of "map_option org_object (req_org rq)"
        "[''_id'', ''orgImageURL'', ''name'', ''website'', ''capabilities'']"]
    by (simp add: obj_def)
  then have absent: "''admins'' \<notin> set (map fst obj)" "''members'' \<notin> set (map fst obj)"
    "''joinRequests'' \<notin> set (map fst obj)" "''owner'' \<notin> set (map fst obj)"
    by auto
  have full: "obj = [(''_id'', JString (oid g)), (''orgImageURL'', JString (orgImageURL g)),
                  (''name'', JString (name g)), (''website'', JString (website g)),
                  (''capabilities'', JRefs (capabilities g))]"
    if "req_org rq = Some g" for g
    using that by (simp add: obj_def pick_org_object)
  from r keys absent full show ?thesis by blast
qed

theorem read_restricted_witness:
  "\<not> isUserAdmin (Some acme) (Some bob)
   \<and> read \<lparr>req_org = Some acme, req_user = Some bob, req_profile = None\<rparr>
     = Json_object [(''_id'', JString ''o1''), (''orgImageURL'', JString ''logo.png''),
         (''name'', JString ''Acme''), (''website'', JString ''acme.ca''),
         (''capabilities'', JRefs [''c1''])]
   \<and> read \<lparr>req_org = Some acme, req_user = None, req_profile = None\<rparr>
     = Json_object [(''_id'', JString ''o1''), (''orgImageURL'', JString ''logo.png''),
         (''name'', JString ''Acme''), (''website'', JString ''acme.ca''),
         (''capabilities'', JRefs [''c1''])]"
  using read_restricted [of "\<lparr>req_org = Some acme, req_user = Some bob, req_profile = None\<rparr>"]
    read_restricted [of "\<lparr>req_org = Some acme, req_user = None, req_profile = None\<rparr>"]
  by (simp add: isUserAdmin_def acme_def bob_def)

subsection \<open>The proposal cleanup\<close>

lemma team_count_without_user: "team_count (without_user usr p) \<le> team_count p"
  by (simp add: add_mono)

lemma proposal_callback_eq:
  "proposal_callback rejects rightNow usr p s =
     (if open_sprint rightNow p \<and> shrinks usr p
      then snd (perform rejects (SaveProposal ((without_user usr p)\<lparr>status := ''Draft''\<rparr>)) s)
      else s)"
proof -
  have "team_count p \<noteq> team_count (without_user usr p) \<longleftrightarrow> shrinks usr p"
    using team_count_without_user [of usr p] by linarith
  then show ?thesis
    by (simp add: proposal_callback_def Let_def)
qed

lemma perform_issued:
  "issued (snd (perform rejects e s)) = issued s @ [(e, \<not> rejects (issued s) e)]"
  by (simp add: perform_def)

lemma perform_frame:
  "orgs (snd (perform rejects (SaveProposal d) s)) = orgs s"
  "users (snd (perform rejects (SaveProposal d) s)) = users s"
  "orgs (snd (perform rejects (FindProposals i) s)) = orgs s"
  "users (snd (perform rejects (FindProposals i) s)) = users s"
  "proposals (snd (perform rejects (FindProposals i) s)) = proposals s"
  by (simp_all add: perform_def commit_def)

lemma forEach_proposal_frame:
  "orgs (forEach_proposal rejects rightNow usr ps s) = orgs s
   \<and> users (forEach_proposal rejects rightNow usr ps s) = users s"
  by (induction ps arbitrary: s) (simp_all add: proposal_callback_eq perform_frame)

lemma forEach_proposal_calls:
  "\<exists>new. issued (forEach_proposal rejects rightNow usr ps s) = issued s @ new
     \<and> map fst new =
         map (\<lambda>p. SaveProposal ((without_user usr p)\<lparr>status := ''Draft''\<rparr>))
           (filter (\<lambda>p. open_sprint rightNow p \<and> shrinks usr p) ps)"
proof (induction ps arbitrary: s)
  case Nil
  show ?case by simp
next
  case (Cons p ps)
  let ?s1 = "proposal_callback rejects rightNow usr p s"
  from Cons [of ?s1] obtain new where
    new: "issued (forEach_proposal rejects rightNow usr ps ?s1) = issued ?s1 @ new"
      "map fst new =
         map (\<lambda>p. SaveProposal ((without_user usr p)\<lparr>status := ''Draft''\<rparr>))
           (filter (\<lambda>p. open_sprint rightNow p \<and> shrinks usr p) ps)"
    by blast
  show ?case
  proof (cases "open_sprint rightNow p \<and> shrinks usr p")
    case True
    then have "issued ?s1 = issued s @ [(SaveProposal ((without_user usr p)\<lparr>status := ''Draft''\<rparr>),
        \<not> rejects (issued s) (SaveProposal ((without_user usr p)\<lparr>status := ''Draft''\<rparr>)))]"
      by (simp add: proposal_callback_eq perform_issued)
    with new True show ?thesis
      by (intro exI [of _ "(SaveProposal ((without_user usr p)\<lparr>status := ''Draft''\<rparr>),
        \<not> rejects (issued s) (SaveProposal ((without_user usr p)\<lparr>status := ''Draft''\<rparr>))) # new"])
        simp
  next
    case False
    then have "?s1 = s" by (auto simp: proposal_callback_eq)
    with new False show ?thesis by (intro exI [of _ new]) simp
  qed
qed

lemma proposal_callback_proposals:
  "proposals (proposal_callback rejects rightNow usr p s) = proposals s
   \<or> (open_sprint rightNow p \<and> shrinks usr p
      \<and> \<not> rejects (issued s) (SaveProposal ((without_user usr p)\<lparr>status := ''Draft''\<rparr>))
      \<and> proposals (proposal_callback rejects rightNow usr p s) =
          map (\<lambda>q. if pid q = pid p then (without_user usr p)\<lparr>status := ''Draft''\<rparr> else q)
            (proposals s))"
  by (auto simp: proposal_callback_eq perform_def commit_def)

lemma forEach_proposal_proposals:
  "list_all2
     (\<lambda>q q'. q' = q \<or> (\<exists>p\<in>set ps. pid p = pid q \<and> open_sprint rightNow p \<and> shrinks usr p
                  \<and> q' = (without_user usr p)\<lparr>status := ''Draft''\<rparr>))
     (proposals s) (proposals (forEach_proposal rejects rightNow usr ps s))"
proof (induction ps arbitrary: s)
  case Nil
  show ?case by (simp add: list_all2_refl)
next
  case (Cons p ps)
  let ?s1 = "proposal_callback rejects rightNow usr p s"
  have step: "list_all2
     (\<lambda>q q'. q' = q \<or> (pid p = pid q \<and> open_sprint rightNow p \<and> shrinks usr p
                  \<and> q' = (without_user usr p)\<lparr>status := ''Draft''\<rparr>))
     (proposals s) (proposals ?s1)"
    using proposal_callback_proposals [of rejects rightNow usr p s]
    by (auto simp: list_all2_conv_all_nth split: if_splits)
  have rest: "list_all2
     (\<lambda>q q'. q' = q \<or> (\<exists>p\<in>set ps. pid p = pid q \<and> open_sprint rightNow p \<and> shrinks usr p
                  \<and> q' = (without_user usr p)\<lparr>status := ''Draft''\<rparr>))
     (proposals ?s1) (proposals (forEach_proposal rejects rightNow usr ps ?s1))"
    by (rule Cons)
  have "list_all2
     (\<lambda>q q'. q' = q \<or> (\<exists>p'\<in>set (p # ps). pid p' = pid q \<and> open_sprint rightNow p'
                  \<and> shrinks usr p' \<and> q' = (without_user usr p')\<lparr>status := ''Draft''\<rparr>))
     (proposals s) (proposals (forEach_proposal rejects rightNow usr ps ?s1))"
    by (rule list_all2_trans [OF _ step rest]) auto
  then show ?case by simp
qed

lemma same_pid:
  "distinct (map pid xs) \<Longrightarrow> a \<in> set xs \<Longrightarrow> b \<in> set xs \<Longrightarrow> pid a = pid b \<Longrightarrow> a = b"
  by (auto simp: distinct_map dest: inj_onD)

lemma without_user_same:
  assumes "\<not> shrinks usr p"
  shows "without_user usr p = p"
proof -
  have le: "length (filter (\<lambda>m. m \<noteq> uid usr) xs) \<le> length xs" for xs :: "ident list"
    by simp
  have keep: "filter (\<lambda>m. m \<noteq> uid usr) xs = xs"
    if "length (filter (\<lambda>m. m \<noteq> uid usr) xs) = length xs" for xs :: "ident list"
    using that by (metis length_filter_less less_irrefl filter_True)
  define a where "a = length (filter (\<lambda>m. m \<noteq> uid usr) (team (inception (phases p))))"
  define b where "b = length (filter (\<lambda>m. m \<noteq> uid usr) (team (proto (phases p))))"
  define c where "c = length (filter (\<lambda>m. m \<noteq> uid usr) (team (implementation (phases p))))"
  have bounds: "a \<le> length (team (inception (phases p)))"
    "b \<le> length (team (proto (phases p)))"
    "c \<le> length (team (implementation (phases p)))"
    unfolding a_def b_def c_def by (rule le)+
  have "\<not> a + b + c < team_count p"
    using assms by (simp add: a_def b_def c_def)
  with bounds have "a = length (team (inception (phases p)))"
    "b = length (team (proto (phases p)))"
    "c = length (team (implementation (phases p)))"
    by linarith+
  then have "length (filter (\<lambda>m. m \<noteq> uid usr) (team (inception (phases p))))
          = length (team (inception (phases p)))"
    "length (filter (\<lambda>m. m \<noteq> uid usr) (team (proto (phases p))))
          = length (team (proto (phases p)))"
    "length (filter (\<lambda>m. m \<noteq> uid usr) (team (implementation (phases p))))
          = length (team (implementation (phases p)))"
    by (simp_all only: a_def b_def c_def)
  then show ?thesis by (simp add: keep)
qed

lemma removeUserFromProposals_rejected:
  assumes "rejects (issued s) (FindProposals (oid g))"
  shows "removeUserFromProposals rejects rightNow usr g s =
     (Inl (Rejection (FindProposals (oid g))),
      s\<lparr>issued := issued s @ [(FindProposals (oid g), False)]\<rparr>)"
  using assms by (simp add: removeUserFromProposals_def perform_def)

lemma removeUserFromProposals_resolved:
  assumes "\<not> rejects (issued s) (FindProposals (oid g))"
  shows "removeUserFromProposals rejects rightNow usr g s =
     (Inr (),
      forEach_proposal rejects rightNow usr (filter (\<lambda>p. p_org p = oid g) (proposals s))
        (s\<lparr>issued := issued s @ [(FindProposals (oid g), True)]\<rparr>))"
  using assms by (simp add: removeUserFromProposals_def perform_def commit_def)

lemma forEach_proposal_keeps:
  "pid x \<notin> pid ` set ps \<Longrightarrow> x \<in> set (proposals s) \<Longrightarrow>
   x \<in> set (proposals (forEach_proposal rejects rightNow usr ps s))"
proof (induction ps arbitrary: s)
  case Nil
  then show ?case by simp
next
  case (Cons a ps)
  from Cons.prems have a: "pid x \<noteq> pid a" and rest: "pid x \<notin> pid ` set ps" by auto
  have "x \<in> set (proposals (proposal_callback rejects rightNow usr a s))"
    using proposal_callback_proposals [of rejects rightNow usr a s] Cons.prems(2) a
    by auto
  from Cons.IH [OF rest this] show ?case by simp
qed

lemma forEach_proposal_outcomes:
  "\<exists>new. issued (forEach_proposal rejects rightNow usr ps s) = issued s @ new
     \<and> map fst new =
         map (\<lambda>p. SaveProposal (drafted usr p))
           (filter (\<lambda>p. open_sprint rightNow p \<and> shrinks usr p) ps)
     \<and> (\<forall>i<length new.
           snd (new ! i) = (\<not> rejects (issued s @ take i new) (fst (new ! i))))"
proof (induction ps arbitrary: s)
  case Nil
  show ?case by simp
next
  case (Cons p ps)
  let ?s1 = "proposal_callback rejects rightNow usr p s"
  from Cons [of ?s1] obtain new where
    new: "issued (forEach_proposal rejects rightNow usr ps ?s1) = issued ?s1 @ new"
      "map fst new =
         map (\<lambda>p. SaveProposal (drafted usr p))
           (filter (\<lambda>p. open_sprint rightNow p \<and> shrinks usr p) ps)"
      "\<forall>i<length new.
           snd (new ! i) = (\<not> rejects (issued ?s1 @ take i new) (fst (new ! i)))"
    by blast
  show ?case
  proof (cases "open_sprint rightNow p \<and> shrinks usr p")
    case True
    define x where "x = (SaveProposal (drafted usr p),
        \<not> rejects (issued s) (SaveProposal (drafted usr p)))"
    from True have s1: "issued ?s1 = issued s @ [x]"
      by (simp add: proposal_callback_eq perform_issued x_def)
    have "snd ((x # new) ! i) = (\<not> rejects (issued s @ take i (x # new)) (fst ((x # new) ! i)))"
      if "i < length (x # new)" for i
    proof (cases i)
      case 0
      then show ?thesis by (simp add: x_def)
    next
      case (Suc j)
      with that new(3) s1 show ?thesis by simp
    qed
    with new(1,2) s1 True show ?thesis
      by (intro exI [of _ "x # new"]) (simp add: x_def)
  next
    case False
    then have "?s1 = s" by (auto simp: proposal_callback_eq)
    with new False show ?thesis by (intro exI [of _ new]) simp
  qed
qed

lemma forEach_proposal_saved_pid:
  assumes "(SaveProposal q, ok)
     \<in> set (drop (length (issued s)) (issued (forEach_proposal rejects rightNow usr ps s)))"
  shows "pid q \<in> pid ` set ps"
proof -
  from forEach_proposal_calls [of rejects rightNow usr ps s] obtain new where
    new: "issued (forEach_proposal rejects rightNow usr ps s) = issued s @ new"
      "map fst new = map (\<lambda>p. SaveProposal (drafted usr p))
                       (filter (\<lambda>p. open_sprint rightNow p \<and> shrinks usr p) ps)"
    by blast
  from assms new(1) have "SaveProposal q \<in> set (map fst new)" by force
  then obtain p2 where "p2 \<in> set ps" "q = drafted usr p2"
    unfolding new(2) by auto
  then show ?thesis by auto
qed

lemma forEach_proposal_stored:
  assumes "distinct (map pid ps)" and "p \<in> set ps" and "p \<in> set (proposals s)"
  shows "(if (SaveProposal (drafted usr p), True)
            \<in> set (drop (length (issued s)) (issued (forEach_proposal rejects rightNow usr ps s)))
          then drafted usr p else p)
         \<in> set (proposals (forEach_proposal rejects rightNow usr ps s))"
  using assms
proof (induction ps arbitrary: s)
  case Nil
  then show ?case by simp
next
  case (Cons a ps)
  let ?s1 = "proposal_callback rejects rightNow usr a s"
  let ?s' = "forEach_proposal rejects rightNow usr ps ?s1"
  let ?D = "SaveProposal (drafted usr p)"
  from Cons.prems have fresh: "pid a \<notin> pid ` set ps" and dist: "distinct (map pid ps)"
    by auto
  from forEach_proposal_calls [of rejects rightNow usr ps ?s1] obtain new where
    new: "issued ?s' = issued ?s1 @ new" by blast
  have later: "pid q \<in> pid ` set ps" if "(SaveProposal q, ok) \<in> set new" for q ok
    using forEach_proposal_saved_pid [of q ok ?s1 rejects rightNow usr ps] that new by simp
  have s': "forEach_proposal rejects rightNow usr (a # ps) s = ?s'" by simp
  consider (saved) "open_sprint rightNow a \<and> shrinks usr a"
      "\<not> rejects (issued s) (SaveProposal (drafted usr a))"
    | (refused) "open_sprint rightNow a \<and> shrinks usr a"
      "rejects (issued s) (SaveProposal (drafted usr a))"
    | (skipped) "\<not> (open_sprint rightNow a \<and> shrinks usr a)"
    by blast
  then have step: "\<exists>pre. issued ?s1 = issued s @ pre
      \<and> (pre = [] \<and> proposals ?s1 = proposals s
         \<or> pre = [(SaveProposal (drafted usr a), False)] \<and> proposals ?s1 = proposals s
         \<or> pre = [(SaveProposal (drafted usr a), True)]
           \<and> proposals ?s1 = map (\<lambda>q. if pid q = pid a then drafted usr a else q) (proposals s))"
  proof cases
    case saved
    then show ?thesis by (simp add: proposal_callback_eq perform_def commit_def)
  next
    case refused
    then show ?thesis by (simp add: proposal_callback_eq perform_def commit_def)
  next
    case skipped
    then have "?s1 = s" by (auto simp: proposal_callback_eq)
    then show ?thesis by simp
  qed
  then obtain pre where pre: "issued ?s1 = issued s @ pre"
    and alt: "pre = [] \<and> proposals ?s1 = proposals s
         \<or> pre = [(SaveProposal (drafted usr a), False)] \<and> proposals ?s1 = proposals s
         \<or> pre = [(SaveProposal (drafted usr a), True)]
           \<and> proposals ?s1 = map (\<lambda>q. if pid q = pid a then drafted usr a else q) (proposals s)"
    by blast
  have calls: "drop (length (issued s)) (issued ?s') = pre @ new"
    "drop (length (issued ?s1)) (issued ?s') = new"
    by (simp_all add: new pre)
  show ?case
  proof (cases "p = a")
    case True
    have absent: "(?D, True) \<notin> set new"
      using later [of "drafted usr p" True] fresh True by auto
    from alt show ?thesis
    proof (elim disjE conjE)
      assume "pre = []" "proposals ?s1 = proposals s"
      with Cons.prems(3) have "p \<in> set (proposals ?s1)" by simp
      from forEach_proposal_keeps [OF _ this, of ps rejects rightNow usr] fresh True
      have "p \<in> set (proposals ?s')" by simp
      with absent \<open>pre = []\<close> show ?thesis unfolding s' calls by simp
    next
      assume h: "pre = [(SaveProposal (drafted usr a), False)]" "proposals ?s1 = proposals s"
      with Cons.prems(3) have "p \<in> set (proposals ?s1)" by simp
      from forEach_proposal_keeps [OF _ this, of ps rejects rightNow usr] fresh True
      have "p \<in> set (proposals ?s')" by simp
      with absent h(1) show ?thesis unfolding s' calls by simp
    next
      assume h: "pre = [(SaveProposal (drafted usr a), True)]"
        "proposals ?s1 = map (\<lambda>q. if pid q = pid a then drafted usr a else q) (proposals s)"
      from Cons.prems(3) True have "drafted usr a \<in> set (proposals ?s1)"
        unfolding h(2) by force
      from forEach_proposal_keeps [OF _ this, of ps rejects rightNow usr] fresh
      have "drafted usr a \<in> set (proposals ?s')" by simp
      with h(1) True show ?thesis unfolding s' calls by simp
    qed
  next
    case False
    with Cons.prems(2) have p: "p \<in> set ps" by simp
    with fresh have other: "pid p \<noteq> pid a" by (metis image_eqI)
    from alt Cons.prems(3) other have "p \<in> set (proposals ?s1)" by force
    from Cons.IH [OF dist p this]
    have ih: "(if (?D, True) \<in> set new then drafted usr p else p) \<in> set (proposals ?s')"
      unfolding calls .
    have "drafted usr a \<noteq> drafted usr p"
    proof
      assume "drafted usr a = drafted usr p"
      then have "pid (drafted usr a) = pid (drafted usr p)" by (rule arg_cong)
      with other show False by simp
    qed
    then have "SaveProposal (drafted usr a) \<noteq> ?D" by (simp only: effect.inject not_False_eq_True)
    with alt have "(?D, True) \<in> set (pre @ new) \<longleftrightarrow> (?D, True) \<in> set new" by auto
    with ih show ?thesis unfolding s' calls by simp
  qed
qed

lemma outcomes_cons:
  assumes "x = (e, \<not> rejects base e)"
    and "\<forall>i<length new. snd (new ! i) = (\<not> rejects ((base @ [x]) @ take i new) (fst (new ! i)))"
  shows "\<forall>i<length (x # new).
           snd ((x # new) ! i) = (\<not> rejects (base @ take i (x # new)) (fst ((x # new) ! i)))"
proof (intro allI impI)
  fix i assume "i < length (x # new)"
  then show "snd ((x # new) ! i) = (\<not> rejects (base @ take i (x # new)) (fst ((x # new) ! i)))"
    using assms by (cases i) simp_all
qed

lemma outcomes_append:
  assumes "\<forall>i<length new. snd (new ! i) = (\<not> rejects (base @ take i new) (fst (new ! i)))"
  shows "\<forall>i. length base \<le> i \<and> i < length (base @ new) \<longrightarrow>
           snd ((base @ new) ! i) = (\<not> rejects (take i (base @ new)) (fst ((base @ new) ! i)))"
proof (intro allI impI)
  fix i assume i: "length base \<le> i \<and> i < length (base @ new)"
  then have "i - length base < length new" by auto
  with assms have "snd (new ! (i - length base))
      = (\<not> rejects (base @ take (i - length base) new) (fst (new ! (i - length base))))"
    by blast
  with i show "snd ((base @ new) ! i)
      = (\<not> rejects (take i (base @ new)) (fst ((base @ new) ! i)))"
    by (simp add: nth_append)
qed

text \<open>
  Claim C2. The cleanup that \<open>removeMember\<close> runs, on a store whose proposals have
  distinct identities, and any proposal \<open>p\<close> of the store. The identities and the order of
  the proposals stay, and the persisted orgs and users are untouched. If the query is
  rejected, the cleanup fails with that rejection and does nothing else. If the query
  resolves, the cleanup returns, whatever becomes of the saves, and the calls it issues
  are the query and then, in the order of the store, one save for every proposal that
  references the org, has opportunity type \<open>sprint-with-us\<close>, a deadline strictly after
  \<open>rightNow\<close> and a total team count that decreased; what is saved is the proposal with
  the user's identity filtered out of the three team lists and status \<open>Draft\<close>. Every
  recorded outcome is the answer of the environment at that point. Unless \<open>p\<close> references
  the org, has type \<open>sprint-with-us\<close> and a deadline strictly after \<open>rightNow\<close>, it is
  still in the store unchanged and no save is issued for it. If it does, and the query
  resolved, a save is issued for it exactly when the total team count decreased; the store
  holds the saved proposal when that save resolved and \<open>p\<close> itself otherwise. So when the
  save of \<open>p\<close> is never rejected, the store holds \<open>p\<close> with the user filtered out of the
  three lists, with status \<open>Draft\<close> if the count decreased and its old status otherwise.
\<close>

theorem removeUserFromProposals_effect:
  assumes unique: "distinct (map pid (proposals s))"
    and run: "removeUserFromProposals rejects rightNow usr g s = (out, s')"
    and p: "p \<in> set (proposals s)"
  shows "map pid (proposals s') = map pid (proposals s)
    \<and> orgs s' = orgs s \<and> users s' = users s
    \<and> (rejects (issued s) (FindProposals (oid g)) \<longrightarrow>
         out = Inl (Rejection (FindProposals (oid g)))
         \<and> s' = s\<lparr>issued := issued s @ [(FindProposals (oid g), False)]\<rparr>)
    \<and> (\<not> rejects (issued s) (FindProposals (oid g)) \<longrightarrow>
         out = Inr ()
         \<and> map fst (drop (length (issued s)) (issued s'))
             = FindProposals (oid g)
               # map (\<lambda>q. SaveProposal (drafted usr q))
                   (filter (\<lambda>q. p_org q = oid g \<and> open_sprint rightNow q \<and> shrinks usr q)
                      (proposals s)))
    \<and> take (length (issued s)) (issued s') = issued s
    \<and> (\<forall>i. length (issued s) \<le> i \<and> i < length (issued s') \<longrightarrow>
           snd (issued s' ! i) = (\<not> rejects (take i (issued s')) (fst (issued s' ! i))))
    \<and> (\<not> (p_org p = oid g \<and> open_sprint rightNow p) \<longrightarrow>
         p \<in> set (proposals s')
         \<and> (\<forall>q ok. (SaveProposal q, ok) \<in> set (drop (length (issued s)) (issued s'))
               \<longrightarrow> pid q \<noteq> pid p))
    \<and> (p_org p = oid g \<and> open_sprint rightNow p
         \<and> \<not> rejects (issued s) (FindProposals (oid g)) \<longrightarrow>
         ((\<exists>ok. (SaveProposal (drafted usr p), ok)
                 \<in> set (drop (length (issued s)) (issued s'))) \<longleftrightarrow> shrinks usr p)
         \<and> (\<forall>q ok. (SaveProposal q, ok) \<in> set (drop (length (issued s)) (issued s'))
                    \<and> pid q = pid p \<longrightarrow> q = drafted usr p)
         \<and> ((SaveProposal (drafted usr p), True)
                 \<in> set (drop (length (issued s)) (issued s'))
               \<longrightarrow> drafted usr p \<in> set (proposals s'))
         \<and> ((SaveProposal (drafted usr p), True)
                 \<notin> set (drop (length (issued s)) (issued s'))
               \<longrightarrow> p \<in> set (proposals s')))
    \<and> (p_org p = oid g \<and> open_sprint rightNow p
         \<and> \<not> rejects (issued s) (FindProposals (oid g))
         \<and> (\<forall>c. \<not> rejects c (SaveProposal (drafted usr p))) \<longrightarrow>
         (without_user usr p)\<lparr>status := (if shrinks usr p then ''Draft'' else status p)\<rparr>
           \<in> set (proposals s'))"
proof (cases "rejects (issued s) (FindProposals (oid g))")
  case True
  from removeUserFromProposals_rejected [of rejects s g rightNow usr, OF True] run
  have "out = Inl (Rejection (FindProposals (oid g)))"
    "s' = s\<lparr>issued := issued s @ [(FindProposals (oid g), False)]\<rparr>"
    by simp_all
  with p True show ?thesis by (auto simp: nth_append)
next
  case False
  define ps where "ps = filter (\<lambda>p. p_org p = oid g) (proposals s)"
  define s1 where "s1 = s\<lparr>issued := issued s @ [(FindProposals (oid g), True)]\<rparr>"
  from removeUserFromProposals_resolved [of rejects s g rightNow usr, OF False] run
  have out: "out = Inr ()" and s': "s' = forEach_proposal rejects rightNow usr ps s1"
    by (simp_all add: ps_def s1_def)
  have s1: "proposals s1 = proposals s" "issued s1 = issued s @ [(FindProposals (oid g), True)]"
    "orgs s1 = orgs s" "users s1 = users s"
    by (simp_all add: s1_def)
  have ps: "q \<in> set ps \<longleftrightarrow> q \<in> set (proposals s) \<and> p_org q = oid g" for q
    by (auto simp: ps_def)
  have ps_unique: "distinct (map pid ps)"
    unfolding ps_def using unique by (rule distinct_map_filter)
  have the_p: "q = p" if "q \<in> set ps" "pid q = pid p" for q
    using same_pid [OF unique _ p that(2)] that(1) ps by blast
  from forEach_proposal_outcomes [of rejects rightNow usr ps s1] obtain new where
    new: "issued s' = issued s1 @ new"
      "map fst new = map (\<lambda>p. SaveProposal (drafted usr p))
                       (filter (\<lambda>p. open_sprint rightNow p \<and> shrinks usr p) ps)"
      "\<forall>i<length new. snd (new ! i) = (\<not> rejects (issued s1 @ take i new) (fst (new ! i)))"
    unfolding s' by blast
  have frame: "orgs s' = orgs s" "users s' = users s"
    using forEach_proposal_frame [of rejects rightNow usr ps s1] by (simp_all add: s' s1)
  have whole: "issued s' = issued s @ (FindProposals (oid g), True) # new"
    by (simp add: new(1) s1(2))
  have dropped: "drop (length (issued s)) (issued s') = (FindProposals (oid g), True) # new"
    by (simp add: whole)
  have trace: "map fst (drop (length (issued s)) (issued s'))
             = FindProposals (oid g)
               # map (\<lambda>q. SaveProposal (drafted usr q))
                   (filter (\<lambda>q. p_org q = oid g \<and> open_sprint rightNow q \<and> shrinks usr q)
                      (proposals s))"
    by (simp add: dropped new(2) ps_def)
  have prefix: "take (length (issued s)) (issued s') = issued s"
    by (simp add: whole)
  have "\<forall>i<length ((FindProposals (oid g), True) # new).
      snd (((FindProposals (oid g), True) # new) ! i)
        = (\<not> rejects (issued s @ take i ((FindProposals (oid g), True) # new))
              (fst (((FindProposals (oid g), True) # new) ! i)))"
    using False new(3) by (intro outcomes_cons [where e = "FindProposals (oid g)"])
      (simp_all add: s1(2))
  from outcomes_append [OF this]
  have outcomes: "\<forall>i. length (issued s) \<le> i \<and> i < length (issued s') \<longrightarrow>
           snd (issued s' ! i) = (\<not> rejects (take i (issued s')) (fst (issued s' ! i)))"
    unfolding whole .
  have calls: "set (drop (length (issued s)) (issued s'))
                 = insert (FindProposals (oid g), True) (set new)"
    by (simp add: dropped)
  have in_new: "(SaveProposal q, ok) \<in> set (drop (length (issued s)) (issued s'))
      \<longleftrightarrow> (SaveProposal q, ok) \<in> set new" for q ok
    by (simp add: calls)
  have saved: "\<exists>p2\<in>set ps. open_sprint rightNow p2 \<and> shrinks usr p2 \<and> q = drafted usr p2"
    if "(SaveProposal q, ok) \<in> set new" for q ok
  proof -
    from that have "SaveProposal q \<in> set (map fst new)" by force
    then show ?thesis unfolding new(2) by auto
  qed
  have saving: "\<exists>ok. (SaveProposal (drafted usr p2), ok) \<in> set new"
    if "p2 \<in> set ps" "open_sprint rightNow p2" "shrinks usr p2" for p2
  proof -
    from that have "SaveProposal (drafted usr p2) \<in> set (map fst new)"
      unfolding new(2) by auto
    then show ?thesis by auto
  qed
  have rel: "list_all2
     (\<lambda>q q'. q' = q \<or> (\<exists>p2\<in>set ps. pid p2 = pid q \<and> open_sprint rightNow p2
                  \<and> shrinks usr p2 \<and> q' = drafted usr p2))
     (proposals s) (proposals s')"
    using forEach_proposal_proposals [where ps = ps and s = s1 and rejects = rejects
        and rightNow = rightNow and usr = usr]
    by (simp add: s' s1(1))
  have "list_all2 (\<lambda>q q'. pid q' = pid q) (proposals s) (proposals s')"
    by (rule list_all2_mono [OF rel]) auto
  then have "list_all2 (=) (map pid (proposals s')) (map pid (proposals s))"
    by (simp add: list_all2_map1 list_all2_map2 list_all2_conv_all_nth)
  then have pids: "map pid (proposals s') = map pid (proposals s)"
    by (simp only: list.rel_eq)
  have unchanged: "p \<in> set (proposals s')
         \<and> (\<forall>q ok. (SaveProposal q, ok) \<in> set (drop (length (issued s)) (issued s'))
               \<longrightarrow> pid q \<noteq> pid p)"
    if other: "\<not> (p_org p = oid g \<and> open_sprint rightNow p)"
  proof -
    have none: "\<not> (p2 \<in> set ps \<and> pid p2 = pid p \<and> open_sprint rightNow p2)" for p2
      using the_p [of p2] ps [of p] p other by blast
    from p obtain i where i: "i < length (proposals s)" "proposals s ! i = p"
      by (auto simp: in_set_conv_nth)
    with rel have "proposals s' ! i = p \<or> (\<exists>p2\<in>set ps. pid p2 = pid p
        \<and> open_sprint rightNow p2 \<and> shrinks usr p2 \<and> proposals s' ! i = drafted usr p2)"
      by (auto simp: list_all2_conv_all_nth)
    with none have "proposals s' ! i = p" by blast
    moreover from rel i have "i < length (proposals s')"
      by (simp add: list_all2_lengthD)
    ultimately have "p \<in> set (proposals s')" by (auto simp: in_set_conv_nth)
    moreover have "pid q \<noteq> pid p"
      if "(SaveProposal q, ok) \<in> set (drop (length (issued s)) (issued s'))" for q ok
    proof -
      from that have "(SaveProposal q, ok) \<in> set new" by (simp add: calls)
      from saved [OF this] obtain p2 where "p2 \<in> set ps" "open_sprint rightNow p2"
        "q = drafted usr p2" by blast
      with none [of p2] show ?thesis by auto
    qed
    ultimately show ?thesis by blast
  qed
  have stored: "(if (SaveProposal (drafted usr p), True)
                  \<in> set (drop (length (issued s)) (issued s'))
                then drafted usr p else p) \<in> set (proposals s')"
    if mine: "p_org p = oid g"
  proof -
    from p mine have in_ps: "p \<in> set ps" by (simp add: ps)
    from p have "p \<in> set (proposals s1)" by (simp add: s1(1))
    from forEach_proposal_stored [OF ps_unique in_ps this, of usr rejects rightNow]
    have "(if (SaveProposal (drafted usr p), True) \<in> set new then drafted usr p else p)
        \<in> set (proposals s')"
      by (simp add: s' [symmetric] new(1))
    then show ?thesis by (simp only: in_new)
  qed
  have qualifying: "((\<exists>ok. (SaveProposal (drafted usr p), ok)
                 \<in> set (drop (length (issued s)) (issued s'))) \<longleftrightarrow> shrinks usr p)
         \<and> (\<forall>q ok. (SaveProposal q, ok) \<in> set (drop (length (issued s)) (issued s'))
                    \<and> pid q = pid p \<longrightarrow> q = drafted usr p)"
    if mine: "p_org p = oid g" and op: "open_sprint rightNow p"
  proof -
    from p mine have in_ps: "p \<in> set ps" by (simp add: ps)
    have origin: "q = drafted usr p \<and> shrinks usr p"
      if "(SaveProposal q, ok) \<in> set new" "pid q = pid p" for q ok
    proof -
      from saved [OF that(1)] obtain p2 where p2: "p2 \<in> set ps" "shrinks usr p2"
        "q = drafted usr p2" by blast
      with that(2) have "pid p2 = pid p" by simp
      from the_p [OF p2(1) this] p2 show ?thesis by simp
    qed
    have "shrinks usr p" if "(SaveProposal (drafted usr p), ok) \<in> set new" for ok
      using origin [OF that] by simp
    moreover have "\<exists>ok. (SaveProposal (drafted usr p), ok) \<in> set new" if "shrinks usr p"
      using saving [OF in_ps op that] .
    ultimately have "(\<exists>ok. (SaveProposal (drafted usr p), ok) \<in> set new) \<longleftrightarrow> shrinks usr p"
      by blast
    with origin show ?thesis by (simp add: calls) blast
  qed
  have resolved:
    "(without_user usr p)\<lparr>status := (if shrinks usr p then ''Draft'' else status p)\<rparr>
           \<in> set (proposals s')"
    if mine: "p_org p = oid g" and op: "open_sprint rightNow p"
      and ok: "\<forall>c. \<not> rejects c (SaveProposal (drafted usr p))"
  proof (cases "shrinks usr p")
    case True
    with qualifying [OF mine op] obtain b where
      b: "(SaveProposal (drafted usr p), b) \<in> set (drop (length (issued s)) (issued s'))"
      by blast
    then obtain j where j: "j < length (drop (length (issued s)) (issued s'))"
      "drop (length (issued s)) (issued s') ! j = (SaveProposal (drafted usr p), b)"
      by (auto simp: in_set_conv_nth)
    then have at: "length (issued s) + j < length (issued s')"
      "issued s' ! (length (issued s) + j) = (SaveProposal (drafted usr p), b)"
      by simp_all
    with outcomes have "b = (\<not> rejects (take (length (issued s) + j) (issued s'))
        (SaveProposal (drafted usr p)))"
      by (metis fst_conv le_add1 snd_conv)
    with ok have "b" by simp
    with b stored [OF mine] have "drafted usr p \<in> set (proposals s')" by simp
    with True show ?thesis by simp
  next
    case False
    with qualifying [OF mine op]
    have "(SaveProposal (drafted usr p), True) \<notin> set (drop (length (issued s)) (issued s'))"
      by blast
    with stored [OF mine] have "p \<in> set (proposals s')" by simp
    with False without_user_same [of usr p] show ?thesis by simp
  qed
  show ?thesis
  proof (intro conjI impI)
    show "map pid (proposals s') = map pid (proposals s)" by (rule pids)
    show "orgs s' = orgs s" "users s' = users s" by (rule frame)+
    show "out = Inr ()" by (rule out)
    show "map fst (drop (length (issued s)) (issued s'))
             = FindProposals (oid g)
               # map (\<lambda>q. SaveProposal (drafted usr q))
                   (filter (\<lambda>q. p_org q = oid g \<and> open_sprint rightNow q \<and> shrinks usr q)
                      (proposals s))" by (rule trace)
    show "take (length (issued s)) (issued s') = issued s" by (rule prefix)
    show "\<forall>i. length (issued s) \<le> i \<and> i < length (issued s') \<longrightarrow>
           snd (issued s' ! i) = (\<not> rejects (take i (issued s')) (fst (issued s' ! i)))"
      by (rule outcomes)
  next
    assume "rejects (issued s) (FindProposals (oid g))"
    with False show "out = Inl (Rejection (FindProposals (oid g)))"
      "s' = s\<lparr>issued := issued s @ [(FindProposals (oid g), False)]\<rparr>" by simp_all
  next
    assume "\<not> (p_org p = oid g \<and> open_sprint rightNow p)"
    from unchanged [OF this] show "p \<in> set (proposals s')"
      "\<forall>q ok. (SaveProposal q, ok) \<in> set (drop (length (issued s)) (issued s'))
               \<longrightarrow> pid q \<noteq> pid p" by blast+
  next
    assume h: "p_org p = oid g \<and> open_sprint rightNow p
         \<and> \<not> rejects (issued s) (FindProposals (oid g))"
    with qualifying show "(\<exists>ok. (SaveProposal (drafted usr p), ok)
                 \<in> set (drop (length (issued s)) (issued s'))) \<longleftrightarrow> shrinks usr p"
      "\<forall>q ok. (SaveProposal q, ok) \<in> set (drop (length (issued s)) (issued s'))
                    \<and> pid q = pid p \<longrightarrow> q = drafted usr p" by blast+
    from h stored show "(SaveProposal (drafted usr p), True)
                 \<in> set (drop (length (issued s)) (issued s'))
               \<Longrightarrow> drafted usr p \<in> set (proposals s')"
      "(SaveProposal (drafted usr p), True)
                 \<notin> set (drop (length (issued s)) (issued s'))
               \<Longrightarrow> p \<in> set (proposals s')" by simp_all
  next
    assume "p_org p = oid g \<and> open_sprint rightNow p
         \<and> \<not> rejects (issued s) (FindProposals (oid g))
         \<and> (\<forall>c. \<not> rejects c (SaveProposal (drafted usr p)))"
    with resolved show "(without_user usr p)
        \<lparr>status := (if shrinks usr p then ''Draft'' else status p)\<rparr> \<in> set (proposals s')"
      by blast
  qed
qed

theorem removeUserFromProposals_effect_witness:
  "distinct (map pid (proposals store0))
   \<and> removeUserFromProposals never 1000 bob acme store0
     = (Inr (),
        store0\<lparr>proposals :=
            [mk_proposal ''p1'' ''o1'' ''sprint-with-us'' 2000 [''u1''] [] [''u3''] ''Draft'',
             mk_proposal ''p2'' ''o1'' ''sprint-with-us'' 500 [''u2''] [] [] ''Submitted'',
             mk_proposal ''p3'' ''o1'' ''code-with-us'' 2000 [] [''u2''] [] ''Submitted'',
             mk_proposal ''p4'' ''o1'' ''sprint-with-us'' 2000 [''u1''] [] [''u3''] ''Submitted'',
             mk_proposal ''p5'' ''o2'' ''sprint-with-us'' 2000 [''u2''] [] [] ''Submitted''],
        issued := [(FindProposals ''o1'', True),
                   (SaveProposal (mk_proposal ''p1'' ''o1'' ''sprint-with-us'' 2000 [''u1''] [] [''u3''] ''Draft''), True)]\<rparr>)
   \<and> removeUserFromProposals lookup_rejected 1000 bob acme store0
     = (Inr (),
        store0\<lparr>proposals :=
            [mk_proposal ''p1'' ''o1'' ''sprint-with-us'' 2000 [''u1''] [] [''u3''] ''Draft'',
             mk_proposal ''p2'' ''o1'' ''sprint-with-us'' 500 [''u2''] [] [] ''Submitted'',
             mk_proposal ''p3'' ''o1'' ''code-with-us'' 2000 [] [''u2''] [] ''Submitted'',
             mk_proposal ''p4'' ''o1'' ''sprint-with-us'' 2000 [''u1''] [] [''u3''] ''Submitted'',
             mk_proposal ''p5'' ''o2'' ''sprint-with-us'' 2000 [''u2''] [] [] ''Submitted''],
        issued := [(FindProposals ''o1'', True),
                   (SaveProposal (mk_proposal ''p1'' ''o1'' ''sprint-with-us'' 2000 [''u1''] [] [''u3''] ''Draft''), True)]\<rparr>)
   \<and> removeUserFromProposals proposal_save_rejected 1000 bob acme store0
     = (Inr (),
        store0\<lparr>issued := [(FindProposals ''o1'', True),
                   (SaveProposal (mk_proposal ''p1'' ''o1'' ''sprint-with-us'' 2000 [''u1''] [] [''u3''] ''Draft''), False)]\<rparr>)
   \<and> removeUserFromProposals find_rejected 1000 bob acme store0
     = (Inl (Rejection (FindProposals ''o1'')),
        store0\<lparr>issued := [(FindProposals ''o1'', False)]\<rparr>)"
proof -
  have d: "distinct (map pid (proposals store0))"
    by (simp add: store0_def sample_proposals_def mk_proposal_def)
  have m1: "mk_proposal ''p1'' ''o1'' ''sprint-with-us'' 2000 [''u1'', ''u2''] [''u2''] [''u3'']
        ''Submitted'' \<in> set (proposals store0)"
    and m2: "mk_proposal ''p2'' ''o1'' ''sprint-with-us'' 500 [''u2''] [] [] ''Submitted'' \<in> set (proposals store0)"
    and m4: "mk_proposal ''p4'' ''o1'' ''sprint-with-us'' 2000 [''u1''] [] [''u3''] ''Submitted'' \<in> set (proposals store0)"
    by (simp_all add: store0_def sample_proposals_def)
  have r1: "removeUserFromProposals never 1000 bob acme store0
     = (Inr (),
        store0\<lparr>proposals :=
            [mk_proposal ''p1'' ''o1'' ''sprint-with-us'' 2000 [''u1''] [] [''u3''] ''Draft'',
             mk_proposal ''p2'' ''o1'' ''sprint-with-us'' 500 [''u2''] [] [] ''Submitted'',
             mk_proposal ''p3'' ''o1'' ''code-with-us'' 2000 [] [''u2''] [] ''Submitted'',
             mk_proposal ''p4'' ''o1'' ''sprint-with-us'' 2000 [''u1''] [] [''u3''] ''Submitted'',
             mk_proposal ''p5'' ''o2'' ''sprint-with-us'' 2000 [''u2''] [] [] ''Submitted''],
        issued := [(FindProposals ''o1'', True),
                   (SaveProposal (mk_proposal ''p1'' ''o1'' ''sprint-with-us'' 2000 [''u1''] [] [''u3''] ''Draft''), True)]\<rparr>)"
    by (simp add: removeUserFromProposals_def perform_def commit_def proposal_callback_def Let_def
      never_def lookup_rejected_def proposal_save_rejected_def find_rejected_def
      acme_def bob_def store0_def sample_proposals_def mk_proposal_def)
  have r2: "removeUserFromProposals lookup_rejected 1000 bob acme store0
     = (Inr (),
        store0\<lparr>proposals :=
            [mk_proposal ''p1'' ''o1'' ''sprint-with-us'' 2000 [''u1''] [] [''u3''] ''Draft'',
             mk_proposal ''p2'' ''o1'' ''sprint-with-us'' 500 [''u2''] [] [] ''Submitted'',
             mk_proposal ''p3'' ''o1'' ''code-with-us'' 2000 [] [''u2''] [] ''Submitted'',
             mk_proposal ''p4'' ''o1'' ''sprint-with-us'' 2000 [''u1''] [] [''u3''] ''Submitted'',
             mk_proposal ''p5'' ''o2'' ''sprint-with-us'' 2000 [''u2''] [] [] ''Submitted''],
        issued := [(FindProposals ''o1'', True),
                   (SaveProposal (mk_proposal ''p1'' ''o1'' ''sprint-with-us'' 2000 [''u1''] [] [''u3''] ''Draft''), True)]\<rparr>)"
    by (simp add: removeUserFromProposals_def perform_def commit_def proposal_callback_def Let_def
      never_def lookup_rejected_def proposal_save_rejected_def find_rejected_def
      acme_def bob_def store0_def sample_proposals_def mk_proposal_def)
  have r3: "removeUserFromProposals proposal_save_rejected 1000 bob acme store0
     = (Inr (),
        store0\<lparr>issued := [(FindProposals ''o1'', True),
                   (SaveProposal (mk_proposal ''p1'' ''o1'' ''sprint-with-us'' 2000 [''u1''] [] [''u3''] ''Draft''), False)]\<rparr>)"
    by (simp add: removeUserFromProposals_def perform_def commit_def proposal_callback_def Let_def
      never_def lookup_rejected_def proposal_save_rejected_def find_rejected_def
      acme_def bob_def store0_def sample_proposals_def mk_proposal_def)
  have r4: "removeUserFromProposals find_rejected 1000 bob acme store0
     = (Inl (Rejection (FindProposals ''o1'')),
        store0\<lparr>issued := [(FindProposals ''o1'', False)]\<rparr>)"
    by (simp add: removeUserFromProposals_def perform_def commit_def proposal_callback_def Let_def
      never_def lookup_rejected_def proposal_save_rejected_def find_rejected_def
      acme_def bob_def store0_def sample_proposals_def mk_proposal_def)
  show ?thesis
    using removeUserFromProposals_effect [OF d r1 m1] removeUserFromProposals_effect [OF d r1 m2]
      removeUserFromProposals_effect [OF d r1 m4] removeUserFromProposals_effect [OF d r2 m1]
      removeUserFromProposals_effect [OF d r3 m1] removeUserFromProposals_effect [OF d r4 m1]
      d r1 r2 r3 r4
    by - (intro conjI, assumption+)
qed

subsection \<open>Member removal\<close>

lemma removeUserFromProposals_frame:
  "orgs (snd (removeUserFromProposals rejects rightNow usr g s)) = orgs s
   \<and> users (snd (removeUserFromProposals rejects rightNow usr g s)) = users s"
proof (cases "rejects (issued s) (FindProposals (oid g))")
  case True
  then show ?thesis
    by (simp add: removeUserFromProposals_rejected [of rejects s g rightNow usr])
next
  case False
  then show ?thesis
    by (simp add: removeUserFromProposals_resolved [of rejects s g rightNow usr]
        forEach_proposal_frame)
qed

text \<open>
  Claim C1. \<open>removeMember\<close> first filters the org's identity out of the user's
  \<open>orgsAdmin\<close> and \<open>orgsMember\<close> and saves the user; this is the first call it issues. If
  that save is rejected the result is the rejection, the org document is the one passed
  in and the store differs only by the recorded call: no proposal and no org is touched.
  Otherwise it runs the proposal cleanup for the updated user and the org as passed in,
  which leaves the persisted orgs and users alone; a failure of the cleanup is the
  result, with the org document still unmodified. After a cleanup that returned, the
  user's identity is filtered out of the org's \<open>members\<close> and \<open>admins\<close>, the org is saved as
  the last call, and the updated org is the result when the save resolved.
\<close>

theorem removeMember_steps:
  fixes usr :: user and g :: org and s :: db
  defines "usr' \<equiv> usr\<lparr>orgsAdmin := filter (\<lambda>a. a \<noteq> oid g) (orgsAdmin usr),
                        orgsMember := filter (\<lambda>m. m \<noteq> oid g) (orgsMember usr)\<rparr>"
  defines "g' \<equiv> g\<lparr>members := filter (\<lambda>m. m \<noteq> uid usr) (members g),
                    admins := filter (\<lambda>a. a \<noteq> uid usr) (admins g)\<rparr>"
  defines "s1 \<equiv> s\<lparr>users := (users s)(uid usr \<mapsto> usr'),
                    issued := issued s @ [(SaveUser usr', True)]\<rparr>"
  assumes run: "removeMember rejects rightNow usr g s = (out, usr1, g1, s')"
  shows "usr1 = usr'
    \<and> (rejects (issued s) (SaveUser usr') \<longrightarrow>
          out = Inl (Rejection (SaveUser usr')) \<and> g1 = g
          \<and> s' = s\<lparr>issued := issued s @ [(SaveUser usr', False)]\<rparr>)
    \<and> (\<not> rejects (issued s) (SaveUser usr') \<longrightarrow>
          (\<exists>r2 s2. removeUserFromProposals rejects rightNow usr' g s1 = (r2, s2)
             \<and> orgs s2 = orgs s \<and> users s2 = (users s)(uid usr \<mapsto> usr')
             \<and> (\<forall>e. r2 = Inl e \<longrightarrow> out = Inl e \<and> g1 = g \<and> s' = s2)
             \<and> (r2 = Inr () \<longrightarrow> g1 = g'
                  \<and> (rejects (issued s2) (SaveOrg g') \<longrightarrow>
                        out = Inl (Rejection (SaveOrg g'))
                        \<and> s' = s2\<lparr>issued := issued s2 @ [(SaveOrg g', False)]\<rparr>)
                  \<and> (\<not> rejects (issued s2) (SaveOrg g') \<longrightarrow>
                        out = Inr g'
                        \<and> s' = s2\<lparr>orgs := (orgs s)(oid g \<mapsto> g'),
                                  issued := issued s2 @ [(SaveOrg g', True)]\<rparr>))))"
proof -
  have usr2: "(usr\<lparr>orgsAdmin := filter (\<lambda>a. a \<noteq> oid g) (orgsAdmin usr)\<rparr>)
      \<lparr>orgsMember := filter (\<lambda>m. m \<noteq> oid g)
         (orgsMember (usr\<lparr>orgsAdmin := filter (\<lambda>a. a \<noteq> oid g) (orgsAdmin usr)\<rparr>))\<rparr> = usr'"
    by (simp add: usr'_def)
  have g2: "(g\<lparr>members := filter (\<lambda>m. m \<noteq> uid usr') (members g)\<rparr>)
      \<lparr>admins := filter (\<lambda>a. a \<noteq> uid usr')
         (admins (g\<lparr>members := filter (\<lambda>m. m \<noteq> uid usr') (members g)\<rparr>))\<rparr> = g'"
    by (simp add: g'_def usr'_def)
  have run': "(case perform rejects (SaveUser usr') s of
        (False, t1) \<Rightarrow> (Inl (Rejection (SaveUser usr')), usr', g, t1)
      | (True, t1) \<Rightarrow>
          (case removeUserFromProposals rejects rightNow usr' g t1 of
             (Inl e, t2) \<Rightarrow> (Inl e, usr', g, t2)
           | (Inr _, t2) \<Rightarrow>
               (case perform rejects (SaveOrg g') t2 of
                  (False, t3) \<Rightarrow> (Inl (Rejection (SaveOrg g')), usr', g', t3)
                | (True, t3) \<Rightarrow> (Inr g', usr', g', t3)))) = (out, usr1, g1, s')"
    using run unfolding removeMember_def Let_def usr2 g2 .
  show ?thesis
  proof (cases "rejects (issued s) (SaveUser usr')")
    case True
    then have "perform rejects (SaveUser usr') s
        = (False, s\<lparr>issued := issued s @ [(SaveUser usr', False)]\<rparr>)"
      by (simp add: perform_def)
    with run' True show ?thesis by auto
  next
    case False
    obtain r2 s2 where cleanup: "removeUserFromProposals rejects rightNow usr' g s1 = (r2, s2)"
      by (cases "removeUserFromProposals rejects rightNow usr' g s1") blast
    have frame: "orgs s2 = orgs s" "users s2 = (users s)(uid usr \<mapsto> usr')"
      using removeUserFromProposals_frame [of rejects rightNow usr' g s1] cleanup
      by (simp_all add: s1_def)
    have step1: "perform rejects (SaveUser usr') s = (True, s1)"
      using False by (simp add: perform_def commit_def s1_def usr'_def)
    show ?thesis
    proof (cases r2)
      case (Inl e)
      with run' step1 cleanup have "out = Inl e" "usr1 = usr'" "g1 = g" "s' = s2"
        by auto
      with False cleanup frame Inl show ?thesis by simp
    next
      case (Inr u)
      from run' step1 cleanup Inr
      have res: "(case perform rejects (SaveOrg g') s2 of
            (False, t3) \<Rightarrow> (Inl (Rejection (SaveOrg g')), usr', g', t3)
          | (True, t3) \<Rightarrow> (Inr g', usr', g', t3)) = (out, usr1, g1, s')"
        by simp
      show ?thesis
      proof (cases "rejects (issued s2) (SaveOrg g')")
        case True
        then have "perform rejects (SaveOrg g') s2
            = (False, s2\<lparr>issued := issued s2 @ [(SaveOrg g', False)]\<rparr>)"
          by (simp add: perform_def)
        with res have "out = Inl (Rejection (SaveOrg g'))" "usr1 = usr'" "g1 = g'"
          "s' = s2\<lparr>issued := issued s2 @ [(SaveOrg g', False)]\<rparr>"
          by auto
        with False True cleanup frame Inr show ?thesis by simp
      next
        case nr: False
        then have "perform rejects (SaveOrg g') s2
            = (True, s2\<lparr>orgs := (orgs s)(oid g \<mapsto> g'),
                       issued := issued s2 @ [(SaveOrg g', True)]\<rparr>)"
          by (simp add: perform_def commit_def frame g'_def)
        with res have "out = Inr g'" "usr1 = usr'" "g1 = g'"
          "s' = s2\<lparr>orgs := (orgs s)(oid g \<mapsto> g'),
                   issued := issued s2 @ [(SaveOrg g', True)]\<rparr>"
          by auto
        with False nr cleanup frame Inr show ?thesis by simp
      qed
    qed
  qed
qed

theorem removeMember_steps_witness:
  "removeMember never 1000 bob acme store0
     = (Inr (acme\<lparr>members := [''u1''], admins := [''u1'']\<rparr>),
        bob\<lparr>orgsAdmin := [], orgsMember := [''o2'']\<rparr>,
        acme\<lparr>members := [''u1''], admins := [''u1'']\<rparr>,
        store0\<lparr>orgs := [''o1'' \<mapsto> acme\<lparr>members := [''u1''], admins := [''u1'']\<rparr>],
          users := (users store0)(''u2'' \<mapsto> bob\<lparr>orgsAdmin := [], orgsMember := [''o2'']\<rparr>),
          proposals :=
            [mk_proposal ''p1'' ''o1'' ''sprint-with-us'' 2000 [''u1''] [] [''u3''] ''Draft'',
             mk_proposal ''p2'' ''o1'' ''sprint-with-us'' 500 [''u2''] [] [] ''Submitted'',
             mk_proposal ''p3'' ''o1'' ''code-with-us'' 2000 [] [''u2''] [] ''Submitted'',
             mk_proposal ''p4'' ''o1'' ''sprint-with-us'' 2000 [''u1''] [] [''u3''] ''Submitted'',
             mk_proposal ''p5'' ''o2'' ''sprint-with-us'' 2000 [''u2''] [] [] ''Submitted''],
          issued := [(SaveUser (bob\<lparr>orgsAdmin := [], orgsMember := [''o2'']\<rparr>), True),
                     (FindProposals ''o1'', True),
                     (SaveProposal (mk_proposal ''p1'' ''o1'' ''sprint-with-us'' 2000 [''u1''] [] [''u3''] ''Draft''), True),
                     (SaveOrg (acme\<lparr>members := [''u1''], admins := [''u1'']\<rparr>), True)]\<rparr>)
   \<and> removeMember user_save_rejected 1000 bob acme store0
     = (Inl (Rejection (SaveUser (bob\<lparr>orgsAdmin := [], orgsMember := [''o2'']\<rparr>))),
        bob\<lparr>orgsAdmin := [], orgsMember := [''o2'']\<rparr>,
        acme,
        store0\<lparr>issued := [(SaveUser (bob\<lparr>orgsAdmin := [], orgsMember := [''o2'']\<rparr>), False)]\<rparr>)
   \<and> removeMember find_rejected 1000 bob acme store0
     = (Inl (Rejection (FindProposals ''o1'')),
        bob\<lparr>orgsAdmin := [], orgsMember := [''o2'']\<rparr>,
        acme,
        store0\<lparr>users := (users store0)(''u2'' \<mapsto> bob\<lparr>orgsAdmin := [], orgsMember := [''o2'']\<rparr>),
          issued := [(SaveUser (bob\<lparr>orgsAdmin := [], orgsMember := [''o2'']\<rparr>), True),
                     (FindProposals ''o1'', False)]\<rparr>)
   \<and> removeMember org_save_rejected 1000 bob acme store0
     = (Inl (Rejection (SaveOrg (acme\<lparr>members := [''u1''], admins := [''u1'']\<rparr>))),
        bob\<lparr>orgsAdmin := [], orgsMember := [''o2'']\<rparr>,
        acme\<lparr>members := [''u1''], admins := [''u1'']\<rparr>,
        store0\<lparr>users := (users store0)(''u2'' \<mapsto> bob\<lparr>orgsAdmin := [], orgsMember := [''o2'']\<rparr>),
          proposals :=
            [mk_proposal ''p1'' ''o1'' ''sprint-with-us'' 2000 [''u1''] [] [''u3''] ''Draft'',
             mk_proposal ''p2'' ''o1'' ''sprint-with-us'' 500 [''u2''] [] [] ''Submitted'',
             mk_proposal ''p3'' ''o1'' ''code-with-us'' 2000 [] [''u2''] [] ''Submitted'',
             mk_proposal ''p4'' ''o1'' ''sprint-with-us'' 2000 [''u1''] [] [''u3''] ''Submitted'',
             mk_proposal ''p5'' ''o2'' ''sprint-with-us'' 2000 [''u2''] [] [] ''Submitted''],
          issued := [(SaveUser (bob\<lparr>orgsAdmin := [], orgsMember := [''o2'']\<rparr>), True),
                     (FindProposals ''o1'', True),
                     (SaveProposal (mk_proposal ''p1'' ''o1'' ''sprint-with-us'' 2000 [''u1''] [] [''u3''] ''Draft''), True),
                     (SaveOrg (acme\<lparr>members := [''u1''], admins := [''u1'']\<rparr>), False)]\<rparr>)"
  using removeMember_steps [where rejects = never and rightNow = 1000 and usr = bob
      and g = acme and s = store0
      and out = "Inr (acme\<lparr>members := [''u1''], admins := [''u1'']\<rparr>)"
      and ?usr1.0 = "bob\<lparr>orgsAdmin := [], orgsMember := [''o2'']\<rparr>"
      and ?g1.0 = "acme\<lparr>members := [''u1''], admins := [''u1'']\<rparr>"
      and s' = "store0\<lparr>orgs := [''o1'' \<mapsto> acme\<lparr>members := [''u1''], admins := [''u1'']\<rparr>],
          users := (users store0)(''u2'' \<mapsto> bob\<lparr>orgsAdmin := [], orgsMember := [''o2'']\<rparr>),
          proposals :=
            [mk_proposal ''p1'' ''o1'' ''sprint-with-us'' 2000 [''u1''] [] [''u3''] ''Draft'',
             mk_proposal ''p2'' ''o1'' ''sprint-with-us'' 500 [''u2''] [] [] ''Submitted'',
             mk_proposal ''p3'' ''o1'' ''code-with-us'' 2000 [] [''u2''] [] ''Submitted'',
             mk_proposal ''p4'' ''o1'' ''sprint-with-us'' 2000 [''u1''] [] [''u3''] ''Submitted'',
             mk_proposal ''p5'' ''o2'' ''sprint-with-us'' 2000 [''u2''] [] [] ''Submitted''],
          issued := [(SaveUser (bob\<lparr>orgsAdmin := [], orgsMember := [''o2'']\<rparr>), True),
                     (FindProposals ''o1'', True),
                     (SaveProposal (mk_proposal ''p1'' ''o1'' ''sprint-with-us'' 2000 [''u1''] [] [''u3''] ''Draft''), True),
                     (SaveOrg (acme\<lparr>members := [''u1''], admins := [''u1'']\<rparr>), True)]\<rparr>"]
    removeMember_steps [where rejects = user_save_rejected and rightNow = 1000 and usr = bob
      and g = acme and s = store0
      and out = "Inl (Rejection (SaveUser (bob\<lparr>orgsAdmin := [], orgsMember := [''o2'']\<rparr>)))"
      and ?usr1.0 = "bob\<lparr>orgsAdmin := [], orgsMember := [''o2'']\<rparr>"
      and ?g1.0 = "acme"
      and s' = "store0\<lparr>issued := [(SaveUser (bob\<lparr>orgsAdmin := [], orgsMember := [''o2'']\<rparr>), False)]\<rparr>"]
    removeMember_steps [where rejects = find_rejected and rightNow = 1000 and usr = bob
      and g = acme and s = store0
      and out = "Inl (Rejection (FindProposals ''o1''))"
      and ?usr1.0 = "bob\<lparr>orgsAdmin := [], orgsMember := [''o2'']\<rparr>"
      and ?g1.0 = "acme"
      and s' = "store0\<lparr>users := (users store0)(''u2'' \<mapsto> bob\<lparr>orgsAdmin := [], orgsMember := [''o2'']\<rparr>),
          issued := [(SaveUser (bob\<lparr>orgsAdmin := [], orgsMember := [''o2'']\<rparr>), True),
                     (FindProposals ''o1'', False)]\<rparr>"]
    removeMember_steps [where rejects = org_save_rejected and rightNow = 1000 and usr = bob
      and g = acme and s = store0
      and out = "Inl (Rejection (SaveOrg (acme\<lparr>members := [''u1''], admins := [''u1'']\<rparr>)))"
      and ?usr1.0 = "bob\<lparr>orgsAdmin := [], orgsMember := [''o2'']\<rparr>"
      and ?g1.0 = "acme\<lparr>members := [''u1''], admins := [''u1'']\<rparr>"
      and s' = "store0\<lparr>users := (users store0)(''u2'' \<mapsto> bob\<lparr>orgsAdmin := [], orgsMember := [''o2'']\<rparr>),
          proposals :=
            [mk_proposal ''p1'' ''o1'' ''sprint-with-us'' 2000 [''u1''] [] [''u3''] ''Draft'',
             mk_proposal ''p2'' ''o1'' ''sprint-with-us'' 500 [''u2''] [] [] ''Submitted'',
             mk_proposal ''p3'' ''o1'' ''code-with-us'' 2000 [] [''u2''] [] ''Submitted'',
             mk_proposal ''p4'' ''o1'' ''sprint-with-us'' 2000 [''u1''] [] [''u3''] ''Submitted'',
             mk_proposal ''p5'' ''o2'' ''sprint-with-us'' 2000 [''u2''] [] [] ''Submitted''],
          issued := [(SaveUser (bob\<lparr>orgsAdmin := [], orgsMember := [''o2'']\<rparr>), True),
                     (FindProposals ''o1'', True),
                     (SaveProposal (mk_proposal ''p1'' ''o1'' ''sprint-with-us'' 2000 [''u1''] [] [''u3''] ''Draft''), True),
                     (SaveOrg (acme\<lparr>members := [''u1''], admins := [''u1'']\<rparr>), False)]\<rparr>"]
  by (simp add: removeMember_def removeUserFromProposals_def perform_def commit_def
      proposal_callback_def Let_def never_def user_save_rejected_def find_rejected_def
      org_save_rejected_def acme_def bob_def store0_def sample_proposals_def mk_proposal_def)

end
